theory Spec2Isabelle
  imports Complex_Main "HOL-Library.AList"
begin

section \<open>Data model\<close>

text \<open>
  The notebook works on pandas data frames. A cell holds a number or is null
  (pandas' NaN/NaT). A number is finite or one of the two infinities of floating
  point; the finite ones are idealised as reals, so rounding and overflow are left
  out. A timestamp is held as its day number since 1970-01-01. A frame is its row
  count (the length of the index) and its columns in order, each column a name and
  one cell per row. Rows are addressed by position.
\<close>

datatype number = Finite real | PosInf | NegInf

type_synonym cell = "number option"

abbreviation num :: "real \<Rightarrow> cell" where
  "num x \<equiv> Some (Finite x)"

record frame =
  index_len :: nat
  columns :: "(string \<times> cell list) list"

datatype py_error = KeyError | ValueError | IndexError | OutOfBoundsDatetime | Raised string

definition valid_frame :: "frame \<Rightarrow> bool" where
  "valid_frame df \<longleftrightarrow>
     distinct (map fst (columns df)) \<and>
     list_all (\<lambda>(c, xs). length xs = index_len df) (columns df)"

text \<open>\<^verbatim>\<open>df[c]\<close>: the column named \<open>c\<close>, or KeyError.\<close>

definition getitem :: "frame \<Rightarrow> string \<Rightarrow> py_error + cell list" where
  "getitem df c = (case map_of (columns df) c of None \<Rightarrow> Inl KeyError | Some xs \<Rightarrow> Inr xs)"

text \<open>\<^verbatim>\<open>df[c] = xs\<close>: an existing column is replaced where it stands, a new one
  is appended.\<close>

definition setitem :: "frame \<Rightarrow> string \<Rightarrow> cell list \<Rightarrow> frame" where
  "setitem df c xs = df\<lparr>columns := AList.update c xs (columns df)\<rparr>"

section \<open>Feature engineering\<close>

text \<open>\<^verbatim>\<open>Series.shift(k)\<close> for \<open>k \<ge> 0\<close>: every value moves \<open>k\<close> rows down, the first
  \<open>k\<close> rows become null, the length is kept.\<close>

definition shift :: "nat \<Rightarrow> cell list \<Rightarrow> cell list" where
  "shift k xs = replicate (min k (length xs)) None @ take (length xs - k) xs"

text \<open>
  \<^verbatim>\<open>Series.rolling(window=w)\<close>: the window of row \<open>i\<close> is rows \<open>max 0 (i - w + 1)\<close> to
  \<open>i\<close>; \<open>min_periods\<close> defaults to \<open>w\<close>. Before windowing pandas replaces the
  infinities by NaN, so the observations of a window are its cells that hold a finite
  number; a window with fewer than \<open>min_periods\<close> observations gives null.
\<close>

definition finite_of :: "cell \<Rightarrow> real option" where
  "finite_of c = (case c of Some (Finite x) \<Rightarrow> Some x | _ \<Rightarrow> None)"

definition window_cells :: "nat \<Rightarrow> cell list \<Rightarrow> nat \<Rightarrow> cell list" where
  "window_cells w xs i = drop (Suc i - w) (take (Suc i) xs)"

definition observations :: "cell list \<Rightarrow> real list" where
  "observations cs = map the (filter (\<lambda>v. v \<noteq> None) (map finite_of cs))"

definition rolling :: "nat \<Rightarrow> (real list \<Rightarrow> real option) \<Rightarrow> cell list \<Rightarrow> cell list" where
  "rolling w agg xs =
     map (\<lambda>i. let obs = observations (window_cells w xs i)
              in if w \<le> length obs then map_option Finite (agg obs) else None)
         [0..<length xs]"

text \<open>\<^verbatim>\<open>.mean()\<close>: the sum of the observations over their number.\<close>

definition mean_agg :: "real list \<Rightarrow> real option" where
  "mean_agg obs = (if obs = [] then None else Some (sum_list obs / real (length obs)))"

text \<open>\<^verbatim>\<open>.std()\<close>, with its default \<open>ddof = 1\<close>: the square root of the sum of squared
  deviations from the mean over the number of observations less one; null unless
  there are more observations than \<open>ddof\<close>.\<close>

definition std_agg :: "real list \<Rightarrow> real option" where
  "std_agg obs =
     (if length obs \<le> 1 then None
      else let m = sum_list obs / real (length obs)
           in Some (sqrt (sum_list (map (\<lambda>x. (x - m)\<^sup>2) obs) / (real (length obs) - 1))))"

text \<open>\<^verbatim>\<open>df.iloc[rows]\<close>: the rows at the given positions, in the given order.\<close>

definition take_rows :: "nat list \<Rightarrow> frame \<Rightarrow> frame" where
  "take_rows rows df =
     \<lparr>index_len = length rows,
      columns = map (\<lambda>(c, xs). (c, map (\<lambda>i. xs ! i) rows)) (columns df)\<rparr>"

text \<open>\<^verbatim>\<open>df.dropna()\<close>: the rows in which no column is null, in order. An infinity is
  not null.\<close>

definition notna_row :: "frame \<Rightarrow> nat \<Rightarrow> bool" where
  "notna_row df i = list_all (\<lambda>(c, xs). xs ! i \<noteq> None) (columns df)"

definition dropna :: "frame \<Rightarrow> frame" where
  "dropna df = take_rows (filter (notna_row df) [0..<index_len df]) df"

definition no_nulls :: "frame \<Rightarrow> bool" where
  "no_nulls df = list_all (\<lambda>(c, xs). list_all (\<lambda>x. x \<noteq> None) xs) (columns df)"

text \<open>The decimal digits of a number, as an f-string prints it.\<close>

definition digit :: "nat \<Rightarrow> char" where
  "digit n = ''0123456789'' ! n"

fun str_nat :: "nat \<Rightarrow> string" where
  "str_nat n = (if n < 10 then [digit n] else str_nat (n div 10) @ [digit (n mod 10)])"

declare str_nat.simps [simp del]

definition lag_name :: "nat \<Rightarrow> string" where
  "lag_name lag = ''lag_'' @ str_nat lag"

definition rolling_mean_name :: "nat \<Rightarrow> string" where
  "rolling_mean_name w = ''rolling_mean_'' @ str_nat w"

definition rolling_std_name :: "nat \<Rightarrow> string" where
  "rolling_std_name w = ''rolling_std_'' @ str_nat w"

text \<open>One turn of each of the two loops of \<^verbatim>\<open>prepare_features\<close>.\<close>

definition add_lag :: "nat \<Rightarrow> frame \<Rightarrow> py_error + frame" where
  "add_lag lag df =
     (case getitem df ''demand'' of
        Inl e \<Rightarrow> Inl e
      | Inr d \<Rightarrow> Inr (setitem df (lag_name lag) (shift lag d)))"

definition add_rolling :: "nat \<Rightarrow> frame \<Rightarrow> py_error + frame" where
  "add_rolling w df =
     (case getitem df ''demand'' of
        Inl e \<Rightarrow> Inl e
      | Inr d \<Rightarrow>
          (let df1 = setitem df (rolling_mean_name w) (rolling w mean_agg d)
           in case getitem df1 ''demand'' of
                Inl e \<Rightarrow> Inl e
              | Inr d1 \<Rightarrow> Inr (setitem df1 (rolling_std_name w) (rolling w std_agg d1))))"

text \<open>A \<^verbatim>\<open>for\<close> loop whose body may raise: the first error ends it.\<close>

fun for_each :: "'a list \<Rightarrow> ('a \<Rightarrow> 's \<Rightarrow> py_error + 's) \<Rightarrow> 's \<Rightarrow> py_error + 's" where
  "for_each [] body s = Inr s"
| "for_each (x # xs) body s =
     (case body x s of Inl e \<Rightarrow> Inl e | Inr s' \<Rightarrow> for_each xs body s')"

text \<open>
  \<^verbatim>\<open>prepare_features(df)\<close> assigns the new columns into the frame it is given, so
  the caller's frame is changed; \<^verbatim>\<open>df = df.dropna()\<close> then binds the local name to a
  new frame, which is returned. The model returns both: the argument as the
  function leaves it (the augmented frame) and the returned frame.
\<close>

definition prepare_features :: "frame \<Rightarrow> py_error + (frame \<times> frame)" where
  "prepare_features df =
     (case for_each [1, 7, 14, 30] add_lag df of
        Inl e \<Rightarrow> Inl e
      | Inr df1 \<Rightarrow>
          (case for_each [7, 14, 30] add_rolling df1 of
             Inl e \<Rightarrow> Inl e
           | Inr df2 \<Rightarrow> Inr (df2, dropna df2)))"

text \<open>The ten assignments of \<^verbatim>\<open>prepare_features\<close> written out, for a demand column
  \<open>d\<close>: the frame the two loops leave behind (lemma \<open>prepare_features_returns\<close>).\<close>

definition augmented :: "frame \<Rightarrow> cell list \<Rightarrow> frame" where
  "augmented df d =
     setitem (setitem (setitem (setitem (setitem (setitem (setitem (setitem (setitem (setitem df
       ''lag_1'' (shift 1 d)) ''lag_7'' (shift 7 d)) ''lag_14'' (shift 14 d)) ''lag_30'' (shift 30 d))
       ''rolling_mean_7'' (rolling 7 mean_agg d)) ''rolling_std_7'' (rolling 7 std_agg d))
       ''rolling_mean_14'' (rolling 14 mean_agg d)) ''rolling_std_14'' (rolling 14 std_agg d))
       ''rolling_mean_30'' (rolling 30 mean_agg d)) ''rolling_std_30'' (rolling 30 std_agg d)"

text \<open>
  The glossary's rolling window feature, in its own words: the mean and the sample
  standard deviation of the demand over rows \<open>lo\<close> to \<open>hi\<close>, undefined (null) when
  one of these rows has no finite demand value.
\<close>

definition spec_window_mean :: "cell list \<Rightarrow> nat \<Rightarrow> nat \<Rightarrow> cell" where
  "spec_window_mean d lo hi =
     (if \<exists>k\<in>{lo..hi}. finite_of (d ! k) = None then None
      else num ((\<Sum>k = lo..hi. the (finite_of (d ! k))) / real (card {lo..hi})))"

definition spec_window_std :: "cell list \<Rightarrow> nat \<Rightarrow> nat \<Rightarrow> cell" where
  "spec_window_std d lo hi =
     (if \<exists>k\<in>{lo..hi}. finite_of (d ! k) = None then None
      else let n = real (card {lo..hi});
               m = (\<Sum>k = lo..hi. the (finite_of (d ! k))) / n
           in num (sqrt ((\<Sum>k = lo..hi. (the (finite_of (d ! k)) - m)\<^sup>2) / (n - 1))))"

text \<open>The names of the ten columns \<^verbatim>\<open>prepare_features\<close> assigns, in the order of its
  two loops.\<close>

definition feature_columns :: "string list" where
  "feature_columns =
     map lag_name [1, 7, 14, 30] @
     concat (map (\<lambda>w. [rolling_mean_name w, rolling_std_name w]) [7, 14, 30])"

text \<open>A demand series is finite when no cell of it holds an infinity.\<close>

definition finite_cells :: "cell list \<Rightarrow> bool" where
  "finite_cells xs = list_all (\<lambda>c. c \<noteq> Some PosInf \<and> c \<noteq> Some NegInf) xs"

text \<open>A small frame of nine days, on which the properties below are evaluated.\<close>

definition demo_frame :: frame where
  "demo_frame = \<lparr>index_len = 9, columns =
     [(''date'', map num [0, 1, 2, 3, 4, 5, 6, 7, 8]),
      (''demand'', map num [4, 1, 1, 1, 3, 5, 5, 5, 9])]\<rparr>"

text \<open>A frame of 32 days whose demand grows by one a day.\<close>

definition month_frame :: frame where
  "month_frame = \<lparr>index_len = 32, columns =
     [(''date'', map (\<lambda>k. num (real k)) [0..<32]),
      (''demand'', map (\<lambda>k. num (100 + real k)) [0..<32])]\<rparr>"

text \<open>A frame of 40 days with no null cell, whose demand is infinite on day 31.\<close>

definition inf_frame :: frame where
  "inf_frame = \<lparr>index_len = 40, columns =
     [(''date'', map (\<lambda>k. num (real k)) [0..<40]),
      (''demand'', map (\<lambda>k. if k = 31 then Some PosInf else num (100 + real k)) [0..<40])]\<rparr>"

section \<open>Splitting into train, validation and test sets\<close>

text \<open>\<^verbatim>\<open>df[names]\<close> with a list of names: the named columns in the order of the list,
  or KeyError when one is missing.\<close>

fun getitems_cols :: "frame \<Rightarrow> string list \<Rightarrow> py_error + (string \<times> cell list) list" where
  "getitems_cols df [] = Inr []"
| "getitems_cols df (c # cs) =
     (case getitem df c of
        Inl e \<Rightarrow> Inl e
      | Inr xs \<Rightarrow>
          (case getitems_cols df cs of
             Inl e \<Rightarrow> Inl e
           | Inr r \<Rightarrow> Inr ((c, xs) # r)))"

definition getitems :: "frame \<Rightarrow> string list \<Rightarrow> py_error + frame" where
  "getitems df names =
     (case getitems_cols df names of
        Inl e \<Rightarrow> Inl e
      | Inr cols \<Rightarrow> Inr \<lparr>index_len = index_len df, columns = cols\<rparr>)"

text \<open>
  scikit-learn's \<^verbatim>\<open>train_test_split(X, y, test_size=t, shuffle=False)\<close>. A fractional
  \<open>test_size\<close> must lie strictly between 0 and 1; the test set has
  \<open>ceil(t * n_samples)\<close> rows and the train set the rest; an empty train set is a
  ValueError. Without shuffling the train set is the first \<open>n_train\<close> rows and the
  test set the \<open>n_test\<close> rows after them. The two literals used, 0.3 and 0.5, are
  taken as the fractions 3/10 and 1/2: rounding 0.3 to a double does not move the
  ceiling of the product for any row count a frame can have.
\<close>

definition validate_shuffle_split :: "nat \<Rightarrow> real \<Rightarrow> py_error + (nat \<times> nat)" where
  "validate_shuffle_split n_samples test_size =
     (if test_size \<le> 0 \<or> 1 \<le> test_size then Inl ValueError
      else let n_test = nat \<lceil>test_size * real n_samples\<rceil>;
               n_train = n_samples - n_test
           in if n_train = 0 then Inl ValueError else Inr (n_train, n_test))"

definition train_test_split ::
  "frame \<Rightarrow> cell list \<Rightarrow> real \<Rightarrow> py_error + (frame \<times> frame \<times> cell list \<times> cell list)" where
  "train_test_split X y test_size =
     (if length y \<noteq> index_len X then Inl ValueError
      else case validate_shuffle_split (index_len X) test_size of
             Inl e \<Rightarrow> Inl e
           | Inr (n_train, n_test) \<Rightarrow>
               (let train = [0..<n_train]; test = [n_train..<n_train + n_test]
                in Inr (take_rows train X, take_rows test X,
                        map (\<lambda>i. y ! i) train, map (\<lambda>i. y ! i) test)))"

text \<open>\<^verbatim>\<open>split_data(df)\<close>, returning
  \<open>(X_train, y_train, X_val, y_val, X_test, y_test)\<close>.\<close>

definition split_data ::
  "frame \<Rightarrow> py_error + (frame \<times> cell list \<times> frame \<times> cell list \<times> frame \<times> cell list)" where
  "split_data df =
     (let features = filter (\<lambda>col. col \<notin> set [''date'', ''demand'']) (map fst (columns df))
      in case getitems df features of
           Inl e \<Rightarrow> Inl e
         | Inr X \<Rightarrow>
             (case getitem df ''demand'' of
                Inl e \<Rightarrow> Inl e
              | Inr y \<Rightarrow>
                  (case train_test_split X y 0.3 of
                     Inl e \<Rightarrow> Inl e
                   | Inr (X_train, X_temp, y_train, y_temp) \<Rightarrow>
                       (case train_test_split X_temp y_temp 0.5 of
                          Inl e \<Rightarrow> Inl e
                        | Inr (X_val, X_test, y_val, y_test) \<Rightarrow>
                            Inr (X_train, y_train, X_val, y_val, X_test, y_test)))))"

text \<open>Ten days with one feature column, and the first three of them.\<close>

definition ten_frame :: frame where
  "ten_frame = \<lparr>index_len = 10, columns =
     [(''date'', map num [0, 1, 2, 3, 4, 5, 6, 7, 8, 9]),
      (''demand'', map num [10, 11, 12, 13, 14, 15, 16, 17, 18, 19]),
      (''dayofweek'', map num [4, 5, 6, 0, 1, 2, 3, 4, 5, 6])]\<rparr>"

definition three_frame :: frame where
  "three_frame = \<lparr>index_len = 3, columns =
     [(''date'', map num [0, 1, 2]),
      (''demand'', map num [10, 11, 12]),
      (''dayofweek'', map num [4, 5, 6])]\<rparr>"

text \<open>
  The words of the claims about the split: the feature rows of a frame are its rows
  without the columns \<open>date\<close> and \<open>demand\<close>; concatenating two frames with the same
  columns puts the rows of the second under those of the first.
\<close>

definition feature_rows :: "frame \<Rightarrow> frame" where
  "feature_rows df =
     \<lparr>index_len = index_len df,
      columns = filter (\<lambda>(c, xs). c \<noteq> ''date'' \<and> c \<noteq> ''demand'') (columns df)\<rparr>"

definition append_rows :: "frame \<Rightarrow> frame \<Rightarrow> frame" where
  "append_rows A B =
     \<lparr>index_len = index_len A + index_len B,
      columns = map (\<lambda>((c, xs), (c', ys)). (c, xs @ ys)) (zip (columns A) (columns B))\<rparr>"

section \<open>Synthetic demand data\<close>

text \<open>
  A numpy value is a scalar or a one-dimensional array; an operation on two of them
  broadcasts a scalar over an array and works element by element on two arrays
  (which have the same length wherever the notebook combines them).
\<close>

datatype nd = Scalar real | Array "real list"

fun nd_map :: "(real \<Rightarrow> real) \<Rightarrow> nd \<Rightarrow> nd" where
  "nd_map f (Scalar a) = Scalar (f a)"
| "nd_map f (Array xs) = Array (map f xs)"

fun nd_map2 :: "(real \<Rightarrow> real \<Rightarrow> real) \<Rightarrow> nd \<Rightarrow> nd \<Rightarrow> nd" where
  "nd_map2 f (Scalar a) (Scalar b) = Scalar (f a b)"
| "nd_map2 f (Scalar a) (Array ys) = Array (map (\<lambda>y. f a y) ys)"
| "nd_map2 f (Array xs) (Scalar b) = Array (map (\<lambda>x. f x b) xs)"
| "nd_map2 f (Array xs) (Array ys) = Array (map (\<lambda>(x, y). f x y) (zip xs ys))"

definition nd_add :: "nd \<Rightarrow> nd \<Rightarrow> nd" where
  "nd_add = nd_map2 (\<lambda>x y. x + y)"

definition nd_mul :: "nd \<Rightarrow> nd \<Rightarrow> nd" where
  "nd_mul = nd_map2 (\<lambda>x y. x * y)"

definition nd_div :: "nd \<Rightarrow> nd \<Rightarrow> nd" where
  "nd_div = nd_map2 (\<lambda>x y. x / y)"

definition nd_maximum :: "nd \<Rightarrow> nd \<Rightarrow> nd" where
  "nd_maximum = nd_map2 (\<lambda>x y. max x y)"

text \<open>\<^verbatim>\<open>np.arange(n)\<close>: the numbers 0 to \<open>n - 1\<close>, none for \<open>n \<le> 0\<close>.\<close>

definition arange :: "int \<Rightarrow> nd" where
  "arange n = Array (map real [0..<nat n])"

text \<open>
  \<^verbatim>\<open>np.random.normal(loc, scale, size)\<close>: ValueError for a negative scale or size,
  otherwise \<open>size\<close> values \<open>loc + scale * g\<close>, where the \<open>g\<close> are the standard normal
  draws of the generator, here the sequence \<open>gauss\<close>.
\<close>

definition random_normal :: "(nat \<Rightarrow> real) \<Rightarrow> real \<Rightarrow> real \<Rightarrow> int \<Rightarrow> py_error + nd" where
  "random_normal gauss loc scale sz =
     (if scale < 0 \<or> sz < 0 then Inl ValueError
      else Inr (Array (map (\<lambda>i. loc + scale * gauss i) [0..<nat sz])))"

text \<open>
  Calendar dates are day numbers since 1970-01-01. \<^verbatim>\<open>pd.date_range(start='2021-01-01',
  periods=n)\<close> is the \<open>n\<close> consecutive days from day 18628 on. pandas holds a timestamp
  as a 64-bit count of nanoseconds since 1970, which ends during day 106751
  (2262-04-11): a range that goes beyond it raises OutOfBoundsDatetime, so the range
  has at most 88124 periods; a negative count is a ValueError. The fields of a date
  follow the proleptic Gregorian calendar; Monday is day 0 of the week.
\<close>

definition date_range_2021 :: "int \<Rightarrow> py_error + int list" where
  "date_range_2021 periods =
     (if periods < 0 then Inl ValueError
      else if 88124 < periods then Inl OutOfBoundsDatetime
      else Inr (map (\<lambda>k. 18628 + int k) [0..<nat periods]))"

definition civil :: "int \<Rightarrow> int \<times> int \<times> int" where
  "civil days =
     (let z = days + 719468;
          era = z div 146097;
          doe = z - era * 146097;
          yoe = (doe - doe div 1460 + doe div 36524 - doe div 146096) div 365;
          doy = doe - (365 * yoe + yoe div 4 - yoe div 100);
          mp = (5 * doy + 2) div 153;
          d = doy - (153 * mp + 2) div 5 + 1;
          m = (if mp < 10 then mp + 3 else mp - 9);
          y = yoe + era * 400 + (if m \<le> 2 then 1 else 0)
      in (y, m, d))"

definition dt_dayofweek :: "int \<Rightarrow> int" where
  "dt_dayofweek days = (days + 3) mod 7"

definition dt_year :: "int \<Rightarrow> int" where
  "dt_year days = fst (civil days)"

definition dt_month :: "int \<Rightarrow> int" where
  "dt_month days = fst (snd (civil days))"

definition dt_day :: "int \<Rightarrow> int" where
  "dt_day days = snd (snd (civil days))"

definition dt_quarter :: "int \<Rightarrow> int" where
  "dt_quarter days = (dt_month days - 1) div 3 + 1"

text \<open>A column of a new frame from a numpy value: a scalar is repeated for every
  row of the index.\<close>

fun column_of :: "nat \<Rightarrow> nd \<Rightarrow> cell list" where
  "column_of n (Scalar a) = replicate n (num a)"
| "column_of n (Array xs) = map num xs"

text \<open>\<^verbatim>\<open>generate_demand_data(n_periods, seasonality, trend, noise_level)\<close>, with the
  draws of the random generator as a further argument.\<close>

definition generate_demand_data ::
  "int \<Rightarrow> bool \<Rightarrow> bool \<Rightarrow> real \<Rightarrow> (nat \<Rightarrow> real) \<Rightarrow> py_error + frame" where
  "generate_demand_data n_periods seasonality trend noise_level gauss =
     (let time_idx = arange n_periods;
          base_demand = 100;
          trend_component = (if trend then nd_mul time_idx (Scalar 0.1) else Scalar 0);
          seasonality_component =
            (if seasonality then
               (let weekly = nd_mul (Scalar 10)
                      (nd_map sin (nd_div (nd_mul (Scalar (2 * pi)) time_idx) (Scalar 7)));
                    monthly = nd_mul (Scalar 20)
                      (nd_map sin (nd_div (nd_mul (Scalar (2 * pi)) time_idx) (Scalar 30)));
                    yearly = nd_mul (Scalar 50)
                      (nd_map sin (nd_div (nd_mul (Scalar (2 * pi)) time_idx) (Scalar 365)))
                in nd_add (nd_add weekly monthly) yearly)
             else Scalar 0)
      in case random_normal gauss 0 (noise_level * base_demand) n_periods of
           Inl e \<Rightarrow> Inl e
         | Inr noise \<Rightarrow>
             (let demand = nd_add (nd_add (nd_add (Scalar base_demand) trend_component)
                                     seasonality_component) noise;
                  demand = nd_maximum demand (Scalar 0)
              in case date_range_2021 n_periods of
                   Inl e \<Rightarrow> Inl e
                 | Inr dates \<Rightarrow>
                     (let dt = (\<lambda>f. map (\<lambda>day. num (real_of_int (f day))) dates);
                          df = \<lparr>index_len = length dates,
                                columns = [(''date'', dt (\<lambda>day. day)),
                                           (''demand'', column_of (length dates) demand)]\<rparr>;
                          df = setitem df ''dayofweek'' (dt dt_dayofweek);
                          df = setitem df ''month'' (dt dt_month);
                          df = setitem df ''day'' (dt dt_day);
                          df = setitem df ''year'' (dt dt_year);
                          df = setitem df ''quarter'' (dt dt_quarter)
                      in Inr df)))"

text \<open>
  The demand the trigonometric synthesis is said to give at time \<open>t\<close>, before
  clipping: base, trend, the three sinusoids and the noise of that day, which is the
  draw scaled by \<open>noise_level * 100\<close>.
\<close>

definition spec_demand :: "bool \<Rightarrow> bool \<Rightarrow> real \<Rightarrow> (nat \<Rightarrow> real) \<Rightarrow> nat \<Rightarrow> real" where
  "spec_demand seasonality trend noise_level gauss t =
     100 + (if trend then 0.1 * real t else 0)
         + (if seasonality
            then 10 * sin (2 * pi * real t / 7) + 20 * sin (2 * pi * real t / 30)
                 + 50 * sin (2 * pi * real t / 365)
            else 0)
         + noise_level * 100 * gauss t"

section \<open>Calls to the managed platform and other libraries\<close>

text \<open>
  What the notebook does beyond computing on frames is a sequence of calls into
  libraries and services: the SageMaker SDK, boto3, the file system, matplotlib, the
  keyboard. Each call is recorded with the arguments the notebook passes. What such a
  call does is not modelled; whether it raises and what it returns is given by the
  world the notebook runs in. Printing is left out.
\<close>

datatype hp_value = HInt int | HFloat real | HStr string

record estimator =
  est_entry_point :: string
  est_source_dir :: string
  est_framework_version :: string
  est_hyperparameters :: "(string \<times> hp_value) list"
  est_role :: string
  est_instance_count :: int
  est_instance_type :: string
  est_output_path :: string
  est_keep_alive_period_in_seconds :: int

datatype serializer = JSONSerializer | CSVSerializer

datatype deserializer = JSONDeserializer

record deploy_args =
  dep_endpoint_name :: string
  dep_initial_instance_count :: int
  dep_instance_type :: string
  dep_serializer :: serializer
  dep_deserializer :: deserializer

record predictor =
  endpoint_name :: string

datatype call =
    SagemakerSession
  | DefaultBucket
  | Boto3SessionRegionName
  | GetExecutionRole
  | Input string
  | PltFigure real real
  | PltPlot "cell list" "cell list"
  | PltTitle string
  | PltXlabel string
  | PltYlabel string
  | PltGrid bool
  | PltTightLayout
  | Makedirs string bool
  | ToCsv frame string bool
  | UploadData string string string
  | XGBoost estimator
  | Fit estimator "(string \<times> string) list"
  | Boto3Client string
  | DeleteEndpointConfig string
  | Deploy estimator deploy_args
  | InvokeEndpoint string "real list list" string string
  | JsonLoads string
  | Predict predictor "real list list"

record world =
  outcome :: "call \<Rightarrow> py_error option"
  text_of :: "call \<Rightarrow> string"
  numbers_of :: "call \<Rightarrow> real list"

text \<open>
  An action runs in a world, appends to the trace what happens and ends with an error
  or a value. What happens is a call, or an error raised by the notebook's own
  computation on frames and numbers (\<open>lift\<close>). \<open>and_then\<close> is sequencing: an error
  ends the sequence, as an exception that nobody catches does. \<open>try_except\<close> is
  \<^verbatim>\<open>try: ... except: ...\<close> with a bare \<^verbatim>\<open>except\<close>, which catches every error of the
  body.
\<close>

datatype event = Call call | Raise py_error

type_synonym 'a action = "world \<Rightarrow> event list \<Rightarrow> (py_error + 'a) \<times> event list"

definition ret :: "'a \<Rightarrow> 'a action" where
  "ret x = (\<lambda>w trace. (Inr x, trace))"

definition lift :: "py_error + 'a \<Rightarrow> 'a action" where
  "lift r = (\<lambda>w trace. (r, case r of Inl e \<Rightarrow> trace @ [Raise e] | Inr x \<Rightarrow> trace))"

definition and_then :: "'a action \<Rightarrow> ('a \<Rightarrow> 'b action) \<Rightarrow> 'b action" where
  "and_then m f =
     (\<lambda>w trace. case m w trace of
                 (Inl e, trace') \<Rightarrow> (Inl e, trace')
               | (Inr x, trace') \<Rightarrow> f x w trace')"

definition try_except :: "'a action \<Rightarrow> 'a action \<Rightarrow> 'a action" where
  "try_except body handler =
     (\<lambda>w trace. case body w trace of
                 (Inl e, trace') \<Rightarrow> handler w trace'
               | (Inr x, trace') \<Rightarrow> (Inr x, trace'))"

text \<open>A call made for its effect, for the text it returns, for the numbers it
  returns.\<close>

definition ext :: "call \<Rightarrow> unit action" where
  "ext c = (\<lambda>w trace. (case outcome w c of Some e \<Rightarrow> Inl e | None \<Rightarrow> Inr (), trace @ [Call c]))"

definition ext_text :: "call \<Rightarrow> string action" where
  "ext_text c =
     (\<lambda>w trace. (case outcome w c of Some e \<Rightarrow> Inl e | None \<Rightarrow> Inr (text_of w c), trace @ [Call c]))"

definition ext_numbers :: "call \<Rightarrow> real list action" where
  "ext_numbers c =
     (\<lambda>w trace. (case outcome w c of Some e \<Rightarrow> Inl e | None \<Rightarrow> Inr (numbers_of w c), trace @ [Call c]))"

subsection \<open>Session initialisation\<close>

text \<open>\<^verbatim>\<open>str.strip()\<close>: leading and trailing whitespace removed. A character is a
  code point below 256, of which Python counts these twelve as whitespace.\<close>

definition isspace :: "char \<Rightarrow> bool" where
  "isspace c \<longleftrightarrow> of_char c \<in> {9, 10, 11, 12, 13, 28, 29, 30, 31, 32, 133, 160 :: nat}"

definition strip :: "string \<Rightarrow> string" where
  "strip s = rev (dropWhile isspace (rev (dropWhile isspace s)))"

record session_info =
  bucket_of :: string
  region_of :: string
  role_of :: string

text \<open>The cell that sets \<^verbatim>\<open>session\<close>, \<^verbatim>\<open>bucket\<close>, \<^verbatim>\<open>region\<close> and \<^verbatim>\<open>role\<close>.\<close>

definition initialize_session :: "session_info action" where
  "initialize_session =
     and_then (ext SagemakerSession) (\<lambda>_.
     and_then (ext_text DefaultBucket) (\<lambda>bucket.
     and_then (ext_text Boto3SessionRegionName) (\<lambda>region.
     and_then
       (try_except (ext_text GetExecutionRole)
          (and_then (ext_text (Input ''> Enter the role ARN for your SageMaker execution role: ''))
             (\<lambda>role. ret (strip role))))
       (\<lambda>role. ret \<lparr>bucket_of = bucket, region_of = region, role_of = role\<rparr>))))"

subsection \<open>Plotting\<close>

definition visualize_data :: "frame \<Rightarrow> unit action" where
  "visualize_data df =
     and_then (ext (PltFigure 12 6)) (\<lambda>_.
     and_then (lift (getitem df ''date'')) (\<lambda>x.
     and_then (lift (getitem df ''demand'')) (\<lambda>y.
     and_then (ext (PltPlot x y)) (\<lambda>_.
     and_then (ext (PltTitle ''Synthetic Demand Data'')) (\<lambda>_.
     and_then (ext (PltXlabel ''Date'')) (\<lambda>_.
     and_then (ext (PltYlabel ''Demand'')) (\<lambda>_.
     and_then (ext (PltGrid True)) (\<lambda>_.
     ext PltTightLayout))))))))"

subsection \<open>Saving the data sets\<close>

text \<open>\<^verbatim>\<open>pd.concat([X, y], axis=1)\<close>: the series, whose name is \<open>demand\<close>, becomes the
  last column.\<close>

definition concat_axis1 :: "frame \<Rightarrow> cell list \<Rightarrow> frame" where
  "concat_axis1 X y = X\<lparr>columns := columns X @ [(''demand'', y)]\<rparr>"

definition save_data_to_s3 ::
  "frame \<Rightarrow> cell list \<Rightarrow> frame \<Rightarrow> cell list \<Rightarrow> frame \<Rightarrow> cell list \<Rightarrow> string
     \<Rightarrow> (string \<times> string \<times> string) action" where
  "save_data_to_s3 X_train y_train X_val y_val X_test y_test bucket =
     and_then (ext (Makedirs ''data'' True)) (\<lambda>_.
     (let train_data = concat_axis1 X_train y_train;
          val_data = concat_axis1 X_val y_val;
          test_data = concat_axis1 X_test y_test
      in and_then (ext (ToCsv train_data ''data/train.csv'' False)) (\<lambda>_.
         and_then (ext (ToCsv val_data ''data/validation.csv'' False)) (\<lambda>_.
         and_then (ext (ToCsv test_data ''data/test.csv'' False)) (\<lambda>_.
         and_then (ext_text (UploadData ''data/train.csv'' bucket ''demand-forecast/data''))
           (\<lambda>train_s3_path.
         and_then (ext_text (UploadData ''data/validation.csv'' bucket ''demand-forecast/data''))
           (\<lambda>val_s3_path.
         and_then (ext_text (UploadData ''data/test.csv'' bucket ''demand-forecast/data''))
           (\<lambda>test_s3_path.
         ret (train_s3_path, val_s3_path, test_s3_path)))))))))"

subsection \<open>Training\<close>

definition train_model :: "string \<Rightarrow> string \<Rightarrow> string \<Rightarrow> string \<Rightarrow> string \<Rightarrow> estimator action" where
  "train_model train_s3_path val_s3_path role bucket instance_type =
     (let hyperparameters =
            [(''max_depth'', HInt 6),
             (''eta'', HFloat 0.2),
             (''gamma'', HInt 4),
             (''min_child_weight'', HInt 6),
             (''subsample'', HFloat 0.8),
             (''objective'', HStr ''reg:squarederror''),
             (''num_round'', HInt 100),
             (''verbosity'', HInt 1)];
          xgb_estimator =
            \<lparr>est_entry_point = ''training_script.py'',
             est_source_dir = ''utils'',
             est_framework_version = ''1.5-1'',
             est_hyperparameters = hyperparameters,
             est_role = role,
             est_instance_count = 1,
             est_instance_type = instance_type,
             est_output_path = ''s3://'' @ bucket @ ''/demand-forecast/output'',
             est_keep_alive_period_in_seconds = 3600\<rparr>
      in and_then (ext (XGBoost xgb_estimator)) (\<lambda>_.
         and_then (ext (Fit xgb_estimator
                     [(''train'', train_s3_path), (''validation'', val_s3_path)])) (\<lambda>_.
         ret xgb_estimator)))"

subsection \<open>Deployment\<close>

text \<open>\<^verbatim>\<open>deploy_model\<close> deploys the notebook's global \<^verbatim>\<open>xgb_estimator\<close>, here its first
  argument, and does not use its parameter \<^verbatim>\<open>predictor\<close>. The predictor that
  \<^verbatim>\<open>deploy\<close> returns is the one of the endpoint it was asked to create.\<close>

definition deploy_model :: "estimator \<Rightarrow> estimator \<Rightarrow> string \<Rightarrow> predictor action" where
  "deploy_model xgb_estimator predictor instance_type =
     and_then
       (try_except
          (and_then (ext (Boto3Client ''sagemaker'')) (\<lambda>_.
             ext (DeleteEndpointConfig ''ml-models-as-tools'')))
          (ret ()))
       (\<lambda>_.
     and_then
       (ext (Deploy xgb_estimator
               \<lparr>dep_endpoint_name = ''ml-models-as-tools'',
                dep_initial_instance_count = 1,
                dep_instance_type = instance_type,
                dep_serializer = JSONSerializer,
                dep_deserializer = JSONDeserializer\<rparr>))
       (\<lambda>_. ret \<lparr>endpoint_name = ''ml-models-as-tools''\<rparr>))"

subsection \<open>Testing the endpoint\<close>

definition generate_prediction_with_boto3 :: "string \<Rightarrow> real list list \<Rightarrow> real list action" where
  "generate_prediction_with_boto3 endpoint test_sample =
     and_then (ext (Boto3Client ''sagemaker-runtime'')) (\<lambda>_.
     and_then (ext_text (InvokeEndpoint endpoint test_sample
                           ''application/json'' ''application/json'')) (\<lambda>body.
     ext_numbers (JsonLoads body)))"

text \<open>
  scikit-learn's \<^verbatim>\<open>mean_absolute_error\<close> and \<^verbatim>\<open>mean_squared_error\<close> on two series:
  ValueError when the lengths differ or there is no sample.
\<close>

definition mean_absolute_error :: "real list \<Rightarrow> real list \<Rightarrow> py_error + real" where
  "mean_absolute_error y_true y_pred =
     (if length y_true \<noteq> length y_pred \<or> y_true = [] then Inl ValueError
      else Inr (sum_list (map (\<lambda>(a, p). \<bar>a - p\<bar>) (zip y_true y_pred)) / real (length y_true)))"

definition mean_squared_error :: "real list \<Rightarrow> real list \<Rightarrow> py_error + real" where
  "mean_squared_error y_true y_pred =
     (if length y_true \<noteq> length y_pred \<or> y_true = [] then Inl ValueError
      else Inr (sum_list (map (\<lambda>(a, p). (a - p)\<^sup>2) (zip y_true y_pred)) / real (length y_true)))"

text \<open>The loop that prints each pair reads \<^verbatim>\<open>predicted[i]\<close> for every index of
  \<^verbatim>\<open>actual\<close>: IndexError when there are fewer predictions.\<close>

definition test_endpoint :: "predictor \<Rightarrow> real list list \<Rightarrow> real list \<Rightarrow> (real \<times> real) action" where
  "test_endpoint predictor test_sample actual =
     and_then (ext_numbers (Predict predictor test_sample)) (\<lambda>predicted.
     and_then (lift (if length predicted < length actual then Inl IndexError else Inr ())) (\<lambda>_.
     and_then (lift (mean_absolute_error actual predicted)) (\<lambda>mae.
     and_then (lift (mean_squared_error actual predicted)) (\<lambda>mse.
     ret (mae, sqrt mse)))))"

text \<open>
  The words of the claims about failures. An action propagates errors, but for the
  calls in \<open>S\<close>, when every error that was raised while it ran, by its own computation
  or by a call outside \<open>S\<close>, is the result of the action: no such error is caught or
  suppressed.
\<close>

definition propagates_but :: "call set \<Rightarrow> 'a action \<Rightarrow> bool" where
  "propagates_but S m \<longleftrightarrow>
     (\<forall>w trace r trace'. m w trace = (r, trace') \<longrightarrow>
        (\<exists>new. trace' = trace @ new \<and>
           (\<forall>ev\<in>set new. \<forall>e.
              ev = Raise e \<or> (\<exists>c. ev = Call c \<and> c \<notin> S \<and> outcome w c = Some e) \<longrightarrow>
              r = Inl e)))"

definition propagates :: "'a action \<Rightarrow> bool" where
  "propagates m \<longleftrightarrow> propagates_but {} m"

text \<open>
  Worlds in which the properties below are evaluated: one where nothing raises, one
  where there is no endpoint configuration to delete, one where the notebook does not
  run under an execution role and the user types the role, and one where training
  fails.
\<close>

definition calm_world :: world where
  "calm_world =
     \<lparr>outcome = (\<lambda>c. None),
      text_of = (\<lambda>c. case c of
                    DefaultBucket \<Rightarrow> ''sagemaker-us-east-1-123456789012''
                  | Boto3SessionRegionName \<Rightarrow> ''us-east-1''
                  | GetExecutionRole \<Rightarrow> ''arn:aws:iam::123456789012:role/notebook''
                  | Input prompt \<Rightarrow> '' arn:aws:iam::123456789012:role/typed  ''
                  | UploadData path bucket key_prefix \<Rightarrow> ''s3://'' @ bucket @ ''/'' @ key_prefix
                  | _ \<Rightarrow> []),
      numbers_of = (\<lambda>c. [])\<rparr>"

definition no_config_world :: world where
  "no_config_world =
     calm_world\<lparr>outcome := (\<lambda>c. if c = DeleteEndpointConfig ''ml-models-as-tools''
                                  then Some (Raised ''ClientError'') else None)\<rparr>"

definition no_role_world :: world where
  "no_role_world =
     calm_world\<lparr>outcome := (\<lambda>c. if c = GetExecutionRole then Some ValueError else None)\<rparr>"

definition failed_training_world :: world where
  "failed_training_world =
     calm_world\<lparr>outcome := (\<lambda>c. case c of
                                   Fit est channels \<Rightarrow> Some (Raised ''UnexpectedStatusException'')
                                 | _ \<Rightarrow> None)\<rparr>"

definition demo_estimator :: estimator where
  "demo_estimator =
     \<lparr>est_entry_point = ''training_script.py'',
      est_source_dir = ''utils'',
      est_framework_version = ''1.5-1'',
      est_hyperparameters =
        [(''max_depth'', HInt 6), (''eta'', HFloat 0.2), (''gamma'', HInt 4),
         (''min_child_weight'', HInt 6), (''subsample'', HFloat 0.8),
         (''objective'', HStr ''reg:squarederror''), (''num_round'', HInt 100),
         (''verbosity'', HInt 1)],
      est_role = ''arn:aws:iam::123456789012:role/notebook'',
      est_instance_count = 1,
      est_instance_type = ''ml.m5.4xlarge'',
      est_output_path = ''s3://sagemaker-us-east-1-123456789012/demand-forecast/output'',
      est_keep_alive_period_in_seconds = 3600\<rparr>"

section \<open>Properties of feature engineering\<close>

lemma feature_names:
  "lag_name 1 = ''lag_1''" "lag_name (Suc 0) = ''lag_1''" "lag_name 7 = ''lag_7''"
  "lag_name 14 = ''lag_14''" "lag_name 30 = ''lag_30''"
  "rolling_mean_name 7 = ''rolling_mean_7''" "rolling_mean_name 14 = ''rolling_mean_14''"
  "rolling_mean_name 30 = ''rolling_mean_30''"
  "rolling_std_name 7 = ''rolling_std_7''" "rolling_std_name 14 = ''rolling_std_14''"
  "rolling_std_name 30 = ''rolling_std_30''"
  by (simp_all add: lag_name_def rolling_mean_name_def rolling_std_name_def
      str_nat.simps digit_def)

lemma getitem_setitem:
  "getitem (setitem df c xs) c' = (if c' = c then Inr xs else getitem df c')"
  by (simp add: getitem_def setitem_def AList.update_conv')

lemma index_len_setitem: "index_len (setitem df c xs) = index_len df"
  by (simp add: setitem_def)

lemma shift_nth: "i < length xs \<Longrightarrow> shift k xs ! i = (if i < k then None else xs ! (i - k))"
  by (auto simp: shift_def nth_append min_def)

lemma length_shift: "length (shift k xs) = length xs"
  by (auto simp: shift_def)

lemma length_rolling: "length (rolling w agg xs) = length xs"
  by (simp add: rolling_def)

lemma prepare_features_returns:
  assumes "getitem df ''demand'' = Inr d"
  shows "prepare_features df = Inr (augmented df d, dropna (augmented df d))"
  using assms
  by (simp add: prepare_features_def add_lag_def add_rolling_def feature_names
      getitem_setitem augmented_def)

lemma index_len_augmented: "index_len (augmented df d) = index_len df"
  by (simp add: augmented_def index_len_setitem)

lemma getitem_length:
  "valid_frame df \<Longrightarrow> getitem df c = Inr xs \<Longrightarrow> length xs = index_len df"
  by (auto simp: valid_frame_def getitem_def list_all_iff split: option.splits dest: map_of_SomeD)

text \<open>
  C1. For a frame with a demand column and a lag \<open>N\<close> of 1, 7, 14 or 30,
  \<^verbatim>\<open>prepare_features\<close> returns and leaves in the frame a column \<open>lag_N\<close> with one cell
  per row whose cell at row \<open>i\<close> is the demand of row \<open>i - N\<close> when \<open>i \<ge> N\<close> and null
  when \<open>i < N\<close>.
\<close>

theorem lag_feature:
  assumes "valid_frame df" and "getitem df ''demand'' = Inr d"
    and "lag \<in> {1, 7, 14, 30}" and "i < index_len df"
  shows "\<exists>aug res col. prepare_features df = Inr (aug, res) \<and>
           getitem aug (lag_name lag) = Inr col \<and> length col = index_len df \<and>
           col ! i = (if lag \<le> i then d ! (i - lag) else None)"
proof -
  have len: "length d = index_len df"
    using assms(1,2) by (rule getitem_length)
  have col: "getitem (augmented df d) (lag_name lag) = Inr (shift lag d)"
    using assms(3) by (auto simp: augmented_def getitem_setitem feature_names)
  have "shift lag d ! i = (if lag \<le> i then d ! (i - lag) else None)"
    using assms(4) len by (auto simp: shift_nth)
  with col len prepare_features_returns [OF assms(2)] show ?thesis
    by (simp add: length_shift)
qed

theorem lag_feature_witness:
  "valid_frame demo_frame \<and>
   getitem demo_frame ''demand'' = Inr (map num [4, 1, 1, 1, 3, 5, 5, 5, 9]) \<and>
   (7::nat) \<in> {1, 7, 14, 30} \<and> 8 < index_len demo_frame \<and>
   (\<exists>aug res col. prepare_features demo_frame = Inr (aug, res) \<and>
      getitem aug ''lag_7'' = Inr col \<and> length col = 9 \<and> col ! 8 = num 1)"
proof -
  have v: "valid_frame demo_frame"
    by (simp add: valid_frame_def demo_frame_def)
  have g: "getitem demo_frame ''demand'' = Inr (map num [4, 1, 1, 1, 3, 5, 5, 5, 9])"
    by (simp add: getitem_def demo_frame_def)
  have l: "(7::nat) \<in> {1, 7, 14, 30}" by simp
  have i: "8 < index_len demo_frame" by (simp add: demo_frame_def)
  show ?thesis
    using v g l i lag_feature [OF v g l i] by (simp add: feature_names demo_frame_def)
qed

lemma rolling_nth:
  "i < length xs \<Longrightarrow>
   rolling w agg xs ! i =
     (let obs = observations (window_cells w xs i)
      in if w \<le> length obs then map_option Finite (agg obs) else None)"
  by (simp add: rolling_def)

lemma length_observations_le: "length (observations cs) \<le> length cs"
proof -
  have "length (filter (\<lambda>v. v \<noteq> None) (map finite_of cs)) \<le> length (map finite_of cs)"
    by (rule length_filter_le)
  then show ?thesis by (simp add: observations_def)
qed

lemma rolling_short:
  assumes "i < length xs" and "Suc i < w"
  shows "rolling w agg xs ! i = None"
proof -
  have "length (window_cells w xs i) < w"
    using assms by (simp add: window_cells_def)
  with length_observations_le [of "window_cells w xs i"]
  have "\<not> w \<le> length (observations (window_cells w xs i))" by simp
  with assms(1) show ?thesis by (simp add: rolling_nth Let_def)
qed

lemma window_cells_full:
  assumes "i < length xs" and "w \<le> Suc i"
  shows "window_cells w xs i = map (\<lambda>k. xs ! k) [Suc i - w..<Suc i]"
  using assms by (intro nth_equalityI) (auto simp: window_cells_def simp del: upt_Suc)

lemma observations_all:
  assumes "\<forall>c\<in>set cs. finite_of c \<noteq> None"
  shows "observations cs = map (\<lambda>c. the (finite_of c)) cs"
proof -
  have "filter (\<lambda>v. v \<noteq> None) (map finite_of cs) = map finite_of cs"
    using assms by (intro filter_True) auto
  then show ?thesis by (simp add: observations_def)
qed

lemma observations_some_null:
  assumes "c \<in> set cs" and "finite_of c = None"
  shows "length (observations cs) < length cs"
proof -
  have "finite_of c \<in> set (map finite_of cs)" using assms(1) by simp
  then have "length (filter (\<lambda>v. v \<noteq> None) (map finite_of cs)) < length (map finite_of cs)"
    using assms(2) by (intro length_filter_less) auto
  then show ?thesis by (simp add: observations_def)
qed

lemma window_observations:
  assumes "i < length d" and "w \<le> Suc i"
  shows "(\<exists>k\<in>{Suc i - w..i}. finite_of (d ! k) = None) \<longrightarrow>
           length (observations (window_cells w d i)) < w"
    and "\<not> (\<exists>k\<in>{Suc i - w..i}. finite_of (d ! k) = None) \<longrightarrow>
           observations (window_cells w d i) =
             map (\<lambda>k. the (finite_of (d ! k))) [Suc i - w..<Suc i]"
proof -
  have wc: "window_cells w d i = map (\<lambda>k. d ! k) [Suc i - w..<Suc i]"
    using assms by (rule window_cells_full)
  have len: "length (window_cells w d i) = w"
    using assms by (simp add: wc del: upt_Suc)
  show "(\<exists>k\<in>{Suc i - w..i}. finite_of (d ! k) = None) \<longrightarrow>
           length (observations (window_cells w d i)) < w"
  proof
    assume "\<exists>k\<in>{Suc i - w..i}. finite_of (d ! k) = None"
    then obtain k where k: "k \<in> {Suc i - w..i}" "finite_of (d ! k) = None" by blast
    then have "d ! k \<in> set (window_cells w d i)"
      unfolding wc by (auto simp del: upt_Suc)
    from observations_some_null [OF this k(2)] len
    show "length (observations (window_cells w d i)) < w" by simp
  qed
  show "\<not> (\<exists>k\<in>{Suc i - w..i}. finite_of (d ! k) = None) \<longrightarrow>
           observations (window_cells w d i) =
             map (\<lambda>k. the (finite_of (d ! k))) [Suc i - w..<Suc i]"
  proof
    assume "\<not> (\<exists>k\<in>{Suc i - w..i}. finite_of (d ! k) = None)"
    then have "\<forall>c\<in>set (window_cells w d i). finite_of c \<noteq> None"
      unfolding wc by (auto simp del: upt_Suc)
    then show "observations (window_cells w d i) =
             map (\<lambda>k. the (finite_of (d ! k))) [Suc i - w..<Suc i]"
      by (simp add: observations_all wc comp_def del: upt_Suc)
  qed
qed

lemma sum_list_window:
  "sum_list (map f [Suc i - w..<Suc i]) = (\<Sum>k = Suc i - w..i. f k)" for f :: "nat \<Rightarrow> real"
proof -
  have "{Suc i - w..<Suc i} = {Suc i - w..i}" by auto
  then show ?thesis
    by (simp add: interv_sum_list_conv_sum_set_nat del: upt_Suc)
qed

lemma rolling_mean_full:
  assumes "i < length d" and "w \<le> Suc i" and "0 < w"
  shows "rolling w mean_agg d ! i = spec_window_mean d (Suc i - w) i"
proof (cases "\<exists>k\<in>{Suc i - w..i}. finite_of (d ! k) = None")
  case True
  with window_observations(1) [OF assms(1,2)]
  have "length (observations (window_cells w d i)) < w" by blast
  with True assms show ?thesis
    by (simp add: rolling_nth spec_window_mean_def Let_def)
next
  case False
  with window_observations(2) [OF assms(1,2)]
  have obs: "observations (window_cells w d i) =
      map (\<lambda>k. the (finite_of (d ! k))) [Suc i - w..<Suc i]" by blast
  from obs False assms show ?thesis
    by (simp add: rolling_nth spec_window_mean_def Let_def mean_agg_def sum_list_window
        del: upt_Suc)
qed

lemma rolling_std_full:
  assumes "i < length d" and "w \<le> Suc i" and "1 < w"
  shows "rolling w std_agg d ! i = spec_window_std d (Suc i - w) i"
proof (cases "\<exists>k\<in>{Suc i - w..i}. finite_of (d ! k) = None")
  case True
  with window_observations(1) [OF assms(1,2)]
  have "length (observations (window_cells w d i)) < w" by blast
  with True assms show ?thesis
    by (simp add: rolling_nth spec_window_std_def Let_def)
next
  case False
  with window_observations(2) [OF assms(1,2)]
  have obs: "observations (window_cells w d i) =
      map (\<lambda>k. the (finite_of (d ! k))) [Suc i - w..<Suc i]" by blast
  from obs False assms show ?thesis
    by (simp add: rolling_nth spec_window_std_def Let_def std_agg_def sum_list_window comp_def
        del: upt_Suc)
qed

text \<open>
  C2. For a frame with a demand column and a window \<open>w\<close> of 7, 14 or 30,
  \<^verbatim>\<open>prepare_features\<close> returns and leaves in the frame the columns \<open>rolling_mean_w\<close>
  and \<open>rolling_std_w\<close>, whose cells at a row \<open>i \<ge> w - 1\<close> are the mean and the sample
  standard deviation of the demand over rows \<open>i - w + 1\<close> to \<open>i\<close>, and are null at
  a row \<open>i < w - 1\<close>.
\<close>

theorem rolling_features:
  assumes "valid_frame df" and "getitem df ''demand'' = Inr d"
    and "w \<in> {7, 14, 30}" and "i < index_len df"
  shows "\<exists>aug res m s. prepare_features df = Inr (aug, res) \<and>
           getitem aug (rolling_mean_name w) = Inr m \<and>
           getitem aug (rolling_std_name w) = Inr s \<and>
           length m = index_len df \<and> length s = index_len df \<and>
           m ! i = (if w - 1 \<le> i then spec_window_mean d (i + 1 - w) i else None) \<and>
           s ! i = (if w - 1 \<le> i then spec_window_std d (i + 1 - w) i else None)"
proof -
  have len: "length d = index_len df"
    using assms(1,2) by (rule getitem_length)
  have w: "1 < w" using assms(3) by auto
  have m: "getitem (augmented df d) (rolling_mean_name w) = Inr (rolling w mean_agg d)"
    using assms(3) by (auto simp: augmented_def getitem_setitem feature_names)
  have s: "getitem (augmented df d) (rolling_std_name w) = Inr (rolling w std_agg d)"
    using assms(3) by (auto simp: augmented_def getitem_setitem feature_names)
  have i: "i < length d" using assms(4) len by simp
  have mi: "rolling w mean_agg d ! i =
      (if w - 1 \<le> i then spec_window_mean d (i + 1 - w) i else None)"
  proof (cases "w - 1 \<le> i")
    case True
    with w have "w \<le> Suc i" by simp
    with i w True show ?thesis by (simp add: rolling_mean_full)
  next
    case False
    with w have "Suc i < w" by simp
    with i False show ?thesis by (simp add: rolling_short)
  qed
  have si: "rolling w std_agg d ! i =
      (if w - 1 \<le> i then spec_window_std d (i + 1 - w) i else None)"
  proof (cases "w - 1 \<le> i")
    case True
    with w have "w \<le> Suc i" by simp
    with i w True show ?thesis by (simp add: rolling_std_full)
  next
    case False
    with w have "Suc i < w" by simp
    with i False show ?thesis by (simp add: rolling_short)
  qed
  from m s mi si len prepare_features_returns [OF assms(2)] show ?thesis
    by (simp add: length_rolling)
qed

theorem rolling_features_witness:
  "valid_frame demo_frame \<and>
   getitem demo_frame ''demand'' = Inr (map num [4, 1, 1, 1, 3, 5, 5, 5, 9]) \<and>
   (7::nat) \<in> {7, 14, 30} \<and> 7 < index_len demo_frame \<and>
   (\<exists>aug res m s. prepare_features demo_frame = Inr (aug, res) \<and>
      getitem aug ''rolling_mean_7'' = Inr m \<and> getitem aug ''rolling_std_7'' = Inr s \<and>
      length m = 9 \<and> length s = 9 \<and> m ! 7 = num 3 \<and> s ! 7 = num 2)"
proof -
  let ?d = "map num [4, 1, 1, 1, 3, 5, 5, 5, 9] :: cell list"
  have v: "valid_frame demo_frame"
    by (simp add: valid_frame_def demo_frame_def)
  have g: "getitem demo_frame ''demand'' = Inr ?d"
    by (simp add: getitem_def demo_frame_def)
  have l: "(7::nat) \<in> {7, 14, 30}" by simp
  have i: "7 < index_len demo_frame" by (simp add: demo_frame_def)
  have iv: "{1..7::nat} = {1, 2, 3, 4, 5, 6, 7}" by auto
  have m: "spec_window_mean ?d 1 7 = num 3"
    unfolding spec_window_mean_def iv by (simp add: finite_of_def)
  have s: "spec_window_std ?d 1 7 = num 2"
    unfolding spec_window_std_def iv by (simp add: finite_of_def power2_eq_square)
  have n: "index_len demo_frame = 9" by (simp add: demo_frame_def)
  from rolling_features [OF v g l i] obtain aug res ms ss where
    r: "prepare_features demo_frame = Inr (aug, res)"
      "getitem aug (rolling_mean_name 7) = Inr ms" "getitem aug (rolling_std_name 7) = Inr ss"
      "length ms = index_len demo_frame" "length ss = index_len demo_frame"
      "ms ! 7 = (if (7::nat) - 1 \<le> 7 then spec_window_mean ?d (7 + 1 - 7) 7 else None)"
      "ss ! 7 = (if (7::nat) - 1 \<le> 7 then spec_window_std ?d (7 + 1 - 7) 7 else None)"
    by blast
  have "ms ! 7 = num 3" using r(6) m by simp
  moreover have "ss ! 7 = num 2" using r(7) s by simp
  ultimately show ?thesis
    using v g l i r(1-5) by (auto simp: feature_names n)
qed

lemma columns_setitem:
  "p \<in> set (columns (setitem df c xs)) \<Longrightarrow> p = (c, xs) \<or> p \<in> set (columns df)"
proof -
  have "set (AList.update c xs al) \<subseteq> insert (c, xs) (set al)" for al :: "(string \<times> cell list) list"
    by (induction al) auto
  then show "p \<in> set (columns (setitem df c xs)) \<Longrightarrow> p = (c, xs) \<or> p \<in> set (columns df)"
    by (auto simp: setitem_def)
qed

lemma columns_augmented:
  assumes "(c, xs) \<in> set (columns (augmented df d))"
  shows "(c, xs) \<in> set (columns df) \<or>
         xs \<in> {shift 1 d, shift 7 d, shift 14 d, shift 30 d,
               rolling 7 mean_agg d, rolling 14 mean_agg d, rolling 30 mean_agg d,
               rolling 7 std_agg d, rolling 14 std_agg d, rolling 30 std_agg d}"
  using assms unfolding augmented_def
  by (auto dest!: columns_setitem)

lemma getitem_mem: "getitem df c = Inr xs \<Longrightarrow> (c, xs) \<in> set (columns df)"
  by (auto simp: getitem_def split: option.splits dest: map_of_SomeD)

lemma no_nulls_nth:
  assumes "no_nulls df" and "(c, xs) \<in> set (columns df)" and "i < length xs"
  shows "xs ! i \<noteq> None"
  using assms by (auto simp: no_nulls_def list_all_iff)

lemma valid_frame_length:
  assumes "valid_frame df" and "(c, xs) \<in> set (columns df)"
  shows "length xs = index_len df"
  using assms by (auto simp: valid_frame_def list_all_iff)

lemma spec_window_mean_None:
  "spec_window_mean d lo hi = None \<longleftrightarrow> (\<exists>k\<in>{lo..hi}. finite_of (d ! k) = None)"
  by (simp add: spec_window_mean_def)

lemma spec_window_std_None:
  "spec_window_std d lo hi = None \<longleftrightarrow> (\<exists>k\<in>{lo..hi}. finite_of (d ! k) = None)"
  by (simp add: spec_window_std_def Let_def)

text \<open>Row \<open>i\<close> of the augmented frame of a null-free frame has no null exactly when it
  has 30 rows before it and the demand is finite on it and on the 29 rows before.\<close>

lemma augmented_rows:
  assumes v: "valid_frame df" and nn: "no_nulls df" and g: "getitem df ''demand'' = Inr d"
    and i: "i < index_len df"
  shows "notna_row (augmented df d) i \<longleftrightarrow>
           30 \<le> i \<and> (\<forall>k\<in>{i - 29..i}. finite_of (d ! k) \<noteq> None)"
proof -
  have len: "length d = index_len df" using v g by (rule getitem_length)
  have dn: "\<forall>k<length d. d ! k \<noteq> None"
    using no_nulls_nth [OF nn getitem_mem [OF g]] by blast
  show ?thesis
  proof
    assume r: "notna_row (augmented df d) i"
    have "getitem (augmented df d) ''lag_30'' = Inr (shift 30 d)"
      by (simp add: augmented_def getitem_setitem)
    then have "(''lag_30'', shift 30 d) \<in> set (columns (augmented df d))"
      by (rule getitem_mem)
    with r have "shift 30 d ! i \<noteq> None"
      by (auto simp: notna_row_def list_all_iff)
    with i len have ge: "30 \<le> i" by (auto simp: shift_nth split: if_splits)
    have "getitem (augmented df d) ''rolling_mean_30'' = Inr (rolling 30 mean_agg d)"
      by (simp add: augmented_def getitem_setitem)
    then have "(''rolling_mean_30'', rolling 30 mean_agg d) \<in> set (columns (augmented df d))"
      by (rule getitem_mem)
    with r have "rolling 30 mean_agg d ! i \<noteq> None"
      by (auto simp: notna_row_def list_all_iff)
    moreover have "rolling 30 mean_agg d ! i = spec_window_mean d (Suc i - 30) i"
      using i len ge by (intro rolling_mean_full) auto
    moreover have "Suc i - 30 = i - 29" using ge by simp
    ultimately have "\<forall>k\<in>{i - 29..i}. finite_of (d ! k) \<noteq> None"
      by (simp add: spec_window_mean_None)
    with ge show "30 \<le> i \<and> (\<forall>k\<in>{i - 29..i}. finite_of (d ! k) \<noteq> None)" by simp
  next
    assume a: "30 \<le> i \<and> (\<forall>k\<in>{i - 29..i}. finite_of (d ! k) \<noteq> None)"
    then have ge: "30 \<le> i" and fin: "\<forall>k\<in>{i - 29..i}. finite_of (d ! k) \<noteq> None" by auto
    have il: "i < length d" using i len by simp
    have sh: "shift k d ! i \<noteq> None" if "k \<le> 30" for k
      using that ge il dn by (auto simp: shift_nth)
    have win: "\<forall>k\<in>{Suc i - w..i}. finite_of (d ! k) \<noteq> None" if "w \<le> 30" for w
      using that ge fin by auto
    have rm: "rolling w mean_agg d ! i \<noteq> None" if "w \<le> 30" "0 < w" for w
    proof -
      have "rolling w mean_agg d ! i = spec_window_mean d (Suc i - w) i"
        using il that ge by (intro rolling_mean_full) auto
      with win [OF that(1)] show ?thesis by (simp add: spec_window_mean_None)
    qed
    have rs: "rolling w std_agg d ! i \<noteq> None" if "w \<le> 30" "1 < w" for w
    proof -
      have "rolling w std_agg d ! i = spec_window_std d (Suc i - w) i"
        using il that ge by (intro rolling_std_full) auto
      with win [OF that(1)] show ?thesis by (simp add: spec_window_std_None)
    qed
    have "xs ! i \<noteq> None" if "(c, xs) \<in> set (columns (augmented df d))" for c xs
      using columns_augmented [OF that]
    proof
      assume m: "(c, xs) \<in> set (columns df)"
      then have "length xs = index_len df" using v by (auto intro: valid_frame_length)
      with i have "i < length xs" by simp
      with nn m show ?thesis by (rule no_nulls_nth)
    next
      assume "xs \<in> {shift 1 d, shift 7 d, shift 14 d, shift 30 d,
               rolling 7 mean_agg d, rolling 14 mean_agg d, rolling 30 mean_agg d,
               rolling 7 std_agg d, rolling 14 std_agg d, rolling 30 std_agg d}"
      then show ?thesis
        using sh [of 1] sh [of 7] sh [of 14] sh [of 30] rm [of 7] rm [of 14] rm [of 30]
          rs [of 7] rs [of 14] rs [of 30]
        by auto
    qed
    then show "notna_row (augmented df d) i"
      by (auto simp: notna_row_def list_all_iff)
  qed
qed

lemma filter_from:
  assumes "\<And>i. i < n \<Longrightarrow> P i \<longleftrightarrow> k \<le> i"
  shows "filter P [0..<n] = [k..<n]"
  using assms
proof (induction n)
  case 0
  then show ?case by simp
next
  case (Suc n)
  then have ih: "filter P [0..<n] = [k..<n]" by simp
  have "P n \<longleftrightarrow> k \<le> n" using Suc.prems by simp
  with ih show ?case by auto
qed

lemma filter_single:
  assumes "\<And>i. i < n \<Longrightarrow> P i \<longleftrightarrow> i = k" and "k < n"
  shows "filter P [0..<n] = [k]"
  using assms
proof (induction n)
  case 0
  then show ?case by simp
next
  case (Suc n)
  show ?case
  proof (cases "k = n")
    case True
    have "filter P [0..<n] = []"
      using Suc.prems(1) True by (auto simp: filter_empty_conv)
    moreover have "P n" using Suc.prems(1) [of n] True by simp
    ultimately show ?thesis using True by simp
  next
    case False
    with Suc.prems have "k < n" by simp
    moreover have "\<And>i. i < n \<Longrightarrow> P i \<longleftrightarrow> i = k" using Suc.prems(1) by simp
    ultimately have "filter P [0..<n] = [k]" by (rule Suc.IH [rotated])
    moreover have "\<not> P n" using Suc.prems(1) [of n] False by simp
    ultimately show ?thesis by simp
  qed
qed

lemma map_nth_upt_drop:
  assumes "length xs = n"
  shows "map (\<lambda>i. xs ! i) [k..<n] = drop k xs"
  using assms by (intro nth_equalityI) auto

lemma getitem_take_rows:
  assumes "getitem df c = Inr xs"
  shows "getitem (take_rows rows df) c = Inr (map (\<lambda>i. xs ! i) rows)"
proof -
  have "map_of (map (\<lambda>(c, xs). (c, f xs)) al) c = map_option f (map_of al c)"
    for al :: "(string \<times> cell list) list" and f :: "cell list \<Rightarrow> cell list"
    by (induction al) auto
  with assms show ?thesis
    by (auto simp: getitem_def take_rows_def split: option.splits)
qed

lemma valid_frame_setitem:
  assumes "valid_frame df" and "length xs = index_len df"
  shows "valid_frame (setitem df c xs)"
proof -
  have "distinct (map fst (AList.update c xs (columns df)))"
    using assms(1) by (simp add: valid_frame_def AList.distinct_update)
  moreover have "length ys = index_len df" if "(k, ys) \<in> set (columns (setitem df c xs))" for k ys
    using columns_setitem [OF that] assms by (auto intro: valid_frame_length)
  ultimately show ?thesis
    by (auto simp: valid_frame_def setitem_def list_all_iff)
qed

lemma valid_frame_augmented:
  assumes "valid_frame df" and "length d = index_len df"
  shows "valid_frame (augmented df d)"
  unfolding augmented_def using assms
  by (intro valid_frame_setitem) (simp_all add: index_len_setitem length_shift length_rolling)

lemma feature_columns_literal:
  "feature_columns = [''lag_1'', ''lag_7'', ''lag_14'', ''lag_30'',
     ''rolling_mean_7'', ''rolling_std_7'', ''rolling_mean_14'', ''rolling_std_14'',
     ''rolling_mean_30'', ''rolling_std_30'']"
  by (simp add: feature_columns_def feature_names)

lemma names_setitem:
  "fst ` set (columns (setitem df c xs)) = insert c (fst ` set (columns df))"
  by (simp add: setitem_def AList.dom_update)

lemma names_augmented:
  "fst ` set (columns (augmented df d)) = fst ` set (columns df) \<union> set feature_columns"
  unfolding augmented_def feature_columns_literal names_setitem by auto

lemma getitem_augmented_input:
  assumes "c \<notin> set feature_columns"
  shows "getitem (augmented df d) c = getitem df c"
  using assms unfolding augmented_def feature_columns_literal
  by (simp add: getitem_setitem)

lemma dropna_augmented:
  assumes "valid_frame df" and "no_nulls df" and "getitem df ''demand'' = Inr d"
  shows "dropna (augmented df d) =
     take_rows (filter (\<lambda>i. 30 \<le> i \<and> (\<forall>k\<in>{i - 29..i}. finite_of (d ! k) \<noteq> None))
                  [0..<index_len df]) (augmented df d)"
proof -
  have "filter (notna_row (augmented df d)) [0..<index_len df] =
      filter (\<lambda>i. 30 \<le> i \<and> (\<forall>k\<in>{i - 29..i}. finite_of (d ! k) \<noteq> None)) [0..<index_len df]"
    using augmented_rows [OF assms] by (intro filter_cong) auto
  then show ?thesis by (simp add: dropna_def index_len_augmented)
qed

lemma finite_cells_nth:
  assumes "finite_cells d" and "k < length d" and "d ! k \<noteq> None"
  shows "finite_of (d ! k) \<noteq> None"
proof -
  from assms(1,2) have "d ! k \<noteq> Some PosInf" "d ! k \<noteq> Some NegInf"
    by (auto simp: finite_cells_def list_all_length)
  with assms(3) obtain x where "d ! k = Some (Finite x)"
    by (cases "d ! k") (auto intro: number.exhaust)
  then show ?thesis by (simp add: finite_of_def)
qed

text \<open>
  C3, as amended. For a frame of at least 31 rows with no null cell and a demand
  column that holds no infinity, \<^verbatim>\<open>prepare_features\<close> returns. The augmented frame keeps
  every column of the input that is not one of the ten feature columns, cell for cell.
  The returned frame has no null cell and is exactly rows 30 to \<open>n - 1\<close> of the
  augmented frame: the same columns in the same order, each without its first 30
  cells, the cells that remain unchanged.
\<close>

theorem prepare_features_dropna:
  assumes "valid_frame df" and "no_nulls df" and "getitem df ''demand'' = Inr d"
    and "finite_cells d" and "31 \<le> index_len df"
  shows "\<exists>aug res. prepare_features df = Inr (aug, res) \<and>
           valid_frame aug \<and> index_len aug = index_len df \<and>
           fst ` set (columns aug) = fst ` set (columns df) \<union> set feature_columns \<and>
           (\<forall>c xs. getitem df c = Inr xs \<and> c \<notin> set feature_columns \<longrightarrow>
              getitem aug c = Inr xs \<and> getitem res c = Inr (drop 30 xs)) \<and>
           index_len res = index_len df - 30 \<and>
           columns res = map (\<lambda>(c, xs). (c, drop 30 xs)) (columns aug) \<and>
           no_nulls res"
proof -
  let ?aug = "augmented df d"
  let ?n = "index_len df"
  let ?res = "take_rows [30..<?n] ?aug"
  have len: "length d = ?n" using assms(1,3) by (rule getitem_length)
  have dn: "\<forall>k<length d. d ! k \<noteq> None"
    using no_nulls_nth [OF assms(2) getitem_mem [OF assms(3)]] by blast
  have fin: "\<forall>k<length d. finite_of (d ! k) \<noteq> None"
  proof (intro allI impI)
    fix k assume k: "k < length d"
    with dn have "d ! k \<noteq> None" by blast
    with assms(4) k show "finite_of (d ! k) \<noteq> None" by (rule finite_cells_nth)
  qed
  have keep: "filter (\<lambda>i. 30 \<le> i \<and> (\<forall>k\<in>{i - 29..i}. finite_of (d ! k) \<noteq> None)) [0..<?n]
      = [30..<?n]"
    using fin len by (intro filter_from) auto
  have "dropna ?aug = ?res"
    unfolding dropna_augmented [OF assms(1-3)] keep ..
  with prepare_features_returns [OF assms(3)]
  have run: "prepare_features df = Inr (?aug, ?res)" by simp
  have va: "valid_frame ?aug" using assms(1) len by (rule valid_frame_augmented)
  have cols: "columns ?res = map (\<lambda>(c, xs). (c, drop 30 xs)) (columns ?aug)"
  proof -
    have "map (\<lambda>i. xs ! i) [30..<?n] = drop 30 xs" if "(c, xs) \<in> set (columns ?aug)" for c xs
    proof -
      have "length xs = ?n"
        using valid_frame_length [OF va that] by (simp add: index_len_augmented)
      then show ?thesis by (rule map_nth_upt_drop)
    qed
    then show ?thesis by (auto simp: take_rows_def)
  qed
  have inp: "getitem ?aug c = Inr xs \<and> getitem ?res c = Inr (drop 30 xs)"
    if "getitem df c = Inr xs" "c \<notin> set feature_columns" for c xs
  proof -
    have a: "getitem ?aug c = Inr xs" using that by (simp add: getitem_augmented_input)
    have "length xs = ?n" using assms(1) that(1) by (rule getitem_length)
    then have "map (\<lambda>i. xs ! i) [30..<?n] = drop 30 xs" by (rule map_nth_upt_drop)
    with getitem_take_rows [OF a, of "[30..<?n]"] a show ?thesis by simp
  qed
  have nn: "no_nulls ?res"
  proof -
    have "xs ! i \<noteq> None" if "(c, xs) \<in> set (columns ?aug)" "i \<in> set [30..<?n]" for c xs i
    proof -
      from that(2) have i: "30 \<le> i" "i < ?n" by auto
      then have "\<forall>k\<in>{i - 29..i}. finite_of (d ! k) \<noteq> None" using fin len by auto
      with i assms(1-3) have "notna_row ?aug i" by (simp add: augmented_rows)
      with that(1) show ?thesis by (auto simp: notna_row_def list_all_iff)
    qed
    then show ?thesis by (auto simp: no_nulls_def take_rows_def list_all_iff)
  qed
  have "index_len ?res = ?n - 30" by (simp add: take_rows_def)
  with run va cols inp nn show ?thesis
    by (intro exI [of _ ?aug] exI [of _ ?res]) (simp add: index_len_augmented names_augmented)
qed

theorem prepare_features_dropna_witness:
  "valid_frame month_frame \<and> no_nulls month_frame \<and>
   getitem month_frame ''demand'' = Inr (map (\<lambda>k. num (100 + real k)) [0..<32]) \<and>
   finite_cells (map (\<lambda>k. num (100 + real k)) [0..<32]) \<and>
   31 \<le> index_len month_frame \<and>
   (\<exists>aug res. prepare_features month_frame = Inr (aug, res) \<and>
      index_len aug = 32 \<and> index_len res = 2 \<and>
      getitem res ''demand'' = Inr [num 130, num 131] \<and>
      columns res = map (\<lambda>(c, xs). (c, drop 30 xs)) (columns aug) \<and> no_nulls res)"
proof -
  let ?d = "map (\<lambda>k. num (100 + real k)) [0..<32]"
  have v: "valid_frame month_frame"
    by (simp add: valid_frame_def month_frame_def)
  have n: "no_nulls month_frame"
    by (simp add: no_nulls_def month_frame_def list_all_iff)
  have g: "getitem month_frame ''demand'' = Inr ?d"
    by (simp add: getitem_def month_frame_def)
  have f: "finite_cells ?d"
    by (simp add: finite_cells_def list_all_iff)
  have l: "31 \<le> index_len month_frame" by (simp add: month_frame_def)
  have i: "index_len month_frame = 32" by (simp add: month_frame_def)
  have c: "''demand'' \<notin> set feature_columns"
    by (simp add: feature_columns_literal)
  have dr: "drop 30 ?d = [num 130, num 131]"
    by (simp add: drop_map upt_rec)
  from prepare_features_dropna [OF v n g f l] obtain aug res where
    r: "prepare_features month_frame = Inr (aug, res)"
      "index_len aug = index_len month_frame"
      "\<forall>c xs. getitem month_frame c = Inr xs \<and> c \<notin> set feature_columns \<longrightarrow>
         getitem aug c = Inr xs \<and> getitem res c = Inr (drop 30 xs)"
      "index_len res = index_len month_frame - 30"
      "columns res = map (\<lambda>(c, xs). (c, drop 30 xs)) (columns aug)"
      "no_nulls res"
    by blast
  from r(3) g c have "getitem res ''demand'' = Inr (drop 30 ?d)" by blast
  with dr have "getitem res ''demand'' = Inr [num 130, num 131]" by simp
  with v n g f l r(1,2,4,5,6) i show ?thesis by auto
qed

text \<open>
  C3 as stated fails on a frame with no null cell whose demand is infinite on one day:
  of the 40 rows of \<open>inf_frame\<close> only row 30 is returned, not rows 30 to 39, because
  the rolling features of rows 31 to 39 have the infinite day in their window and are
  null.
\<close>

theorem prepare_features_infinite_demand:
  "valid_frame inf_frame \<and> no_nulls inf_frame \<and> index_len inf_frame = 40 \<and>
   \<not> isl (prepare_features inf_frame) \<and>
   index_len (snd (projr (prepare_features inf_frame))) = 1 \<and>
   getitem (snd (projr (prepare_features inf_frame))) ''demand'' = Inr [num 130]"
proof -
  let ?f = "\<lambda>k::nat. if k = 31 then Some PosInf else num (100 + real k)"
  let ?d = "map ?f [0..<40]"
  let ?aug = "augmented inf_frame ?d"
  have v: "valid_frame inf_frame"
    by (simp add: valid_frame_def inf_frame_def)
  have n: "no_nulls inf_frame"
    by (simp add: no_nulls_def inf_frame_def list_all_iff)
  have g: "getitem inf_frame ''demand'' = Inr ?d"
    by (simp add: getitem_def inf_frame_def)
  have i: "index_len inf_frame = 40" by (simp add: inf_frame_def)
  have dk: "finite_of (?d ! k) \<noteq> None \<longleftrightarrow> k \<noteq> 31" if "k < 40" for k
    using that by (simp add: finite_of_def)
  have q: "(30 \<le> j \<and> (\<forall>k\<in>{j - 29..j}. finite_of (?d ! k) \<noteq> None)) \<longleftrightarrow> j = 30"
    if j: "j < 40" for j
  proof
    assume a: "30 \<le> j \<and> (\<forall>k\<in>{j - 29..j}. finite_of (?d ! k) \<noteq> None)"
    show "j = 30"
    proof (rule ccontr)
      assume "j \<noteq> 30"
      with a j have "31 \<in> {j - 29..j}" by auto
      with a have "finite_of (?d ! 31) \<noteq> None" by blast
      with dk [of 31] show False by simp
    qed
  next
    assume e: "j = 30"
    have "finite_of (?d ! k) \<noteq> None" if "k \<in> {j - 29..j}" for k
      using that e dk [of k] by auto
    with e show "30 \<le> j \<and> (\<forall>k\<in>{j - 29..j}. finite_of (?d ! k) \<noteq> None)" by blast
  qed
  have keep: "filter (\<lambda>j. 30 \<le> j \<and> (\<forall>k\<in>{j - 29..j}. finite_of (?d ! k) \<noteq> None)) [0..<40]
      = [30]"
    by (rule filter_single) (use q in auto)
  have "dropna ?aug = take_rows [30] ?aug"
    unfolding dropna_augmented [OF v n g] i keep ..
  with prepare_features_returns [OF g]
  have run: "prepare_features inf_frame = Inr (?aug, take_rows [30] ?aug)" by simp
  have "getitem ?aug ''demand'' = Inr ?d"
    using g by (simp add: getitem_augmented_input feature_columns_literal)
  from getitem_take_rows [OF this, of "[30]"]
  have "getitem (take_rows [30] ?aug) ''demand'' = Inr [num 130]" by simp
  with v n i run show ?thesis by (simp add: take_rows_def)
qed

section \<open>Properties of the split\<close>

lemma ceil_3_10: "nat \<lceil>0.3 * real n\<rceil> = (3 * n + 9) div 10"
proof -
  define q where "q = (3 * n + 9) div 10"
  have a: "3 * n \<le> 10 * q" and b: "10 * q < 3 * n + 10"
    unfolding q_def by arith+
  have "real (3 * n) \<le> real (10 * q)"
    using a by (simp only: of_nat_le_iff)
  then have a': "0.3 * real n \<le> real q" by simp
  have "real (10 * q) < real (3 * n + 10)"
    using b by (simp only: of_nat_less_iff)
  then have b': "real q - 1 < 0.3 * real n" by simp
  have "\<lceil>0.3 * real n\<rceil> = int q"
    by (rule ceiling_unique) (use a' b' in simp_all)
  then show ?thesis by (simp add: q_def)
qed

lemma ceil_1_2: "nat \<lceil>0.5 * real n\<rceil> = (n + 1) div 2"
proof -
  define q where "q = (n + 1) div 2"
  have a: "n \<le> 2 * q" and b: "2 * q < n + 2"
    unfolding q_def by arith+
  have "real n \<le> real (2 * q)"
    using a by (simp only: of_nat_le_iff)
  then have a': "0.5 * real n \<le> real q" by simp
  have "real (2 * q) < real (n + 2)"
    using b by (simp only: of_nat_less_iff)
  then have b': "real q - 1 < 0.5 * real n" by simp
  have "\<lceil>0.5 * real n\<rceil> = int q"
    by (rule ceiling_unique) (use a' b' in simp_all)
  then show ?thesis by (simp add: q_def)
qed

lemma validate_shuffle_split_03:
  "validate_shuffle_split n 0.3 =
     (if n \<le> (3 * n + 9) div 10 then Inl ValueError
      else Inr (n - (3 * n + 9) div 10, (3 * n + 9) div 10))"
  unfolding validate_shuffle_split_def ceil_3_10 by (simp add: Let_def)

lemma validate_shuffle_split_05:
  "validate_shuffle_split n 0.5 =
     (if n \<le> (n + 1) div 2 then Inl ValueError
      else Inr (n - (n + 1) div 2, (n + 1) div 2))"
  unfolding validate_shuffle_split_def ceil_1_2 by (simp add: Let_def)

lemma getitems_cols_sub:
  assumes "\<forall>p\<in>set ps. map_of (columns df) (fst p) = Some (snd p)"
  shows "getitems_cols df (map fst ps) = Inr ps"
  using assms by (induction ps) (auto simp: getitem_def)

lemma getitems_features:
  assumes "valid_frame df"
  shows "getitems df (filter (\<lambda>col. col \<notin> set [''date'', ''demand'']) (map fst (columns df)))
         = Inr (feature_rows df)"
proof -
  let ?ps = "filter (\<lambda>(c, xs). c \<noteq> ''date'' \<and> c \<noteq> ''demand'') (columns df)"
  have d: "distinct (map fst (columns df))"
    using assms by (simp add: valid_frame_def)
  have n: "filter (\<lambda>col. col \<notin> set [''date'', ''demand'']) (map fst (columns df)) = map fst ?ps"
    by (induction "columns df") (auto simp: filter_map comp_def case_prod_beta)
  have "\<forall>p\<in>set ?ps. map_of (columns df) (fst p) = Some (snd p)"
    using d by auto
  then have "getitems_cols df (map fst ?ps) = Inr ?ps"
    by (rule getitems_cols_sub)
  with n show ?thesis by (simp add: getitems_def feature_rows_def)
qed

lemma take_rows_take_rows:
  assumes "\<forall>i\<in>set r2. i < length r1"
  shows "take_rows r2 (take_rows r1 df) = take_rows (map (\<lambda>i. r1 ! i) r2) df"
  using assms by (auto simp: take_rows_def)

lemma map_nth_upt_shift:
  assumes "k + j \<le> m"
  shows "map (\<lambda>i. [a..<a + m] ! i) [k..<k + j] = [a + k..<a + k + j]"
  using assms by (intro nth_equalityI) auto

lemma append_rows_take_rows:
  "append_rows (take_rows r1 X) (take_rows r2 X) = take_rows (r1 @ r2) X"
proof -
  have "map (\<lambda>((c, xs), (c', ys)). (c, xs @ ys)) (zip (map (\<lambda>(c, xs). (c, f xs)) al) (map (\<lambda>(c, xs). (c, g xs)) al))
        = map (\<lambda>(c, xs). (c, f xs @ g xs)) al"
    for al :: "(string \<times> cell list) list" and f g :: "cell list \<Rightarrow> cell list"
    by (induction al) auto
  then show ?thesis by (simp add: append_rows_def take_rows_def)
qed

lemma take_rows_all:
  assumes "list_all (\<lambda>(c, xs). length xs = index_len X) (columns X)"
  shows "take_rows [0..<index_len X] X = X"
proof -
  have "map (\<lambda>(c, xs). (c, map (\<lambda>i. xs ! i) [0..<index_len X])) (columns X) = columns X"
  proof (rule map_idI)
    fix p assume "p \<in> set (columns X)"
    with assms have "length (snd p) = index_len X"
      by (auto simp: list_all_iff)
    then have "map (\<lambda>i. snd p ! i) [0..<index_len X] = snd p"
      using map_nth [of "snd p"] by simp
    then show "(case p of (c, xs) \<Rightarrow> (c, map (\<lambda>i. xs ! i) [0..<index_len X])) = p"
      by (simp add: case_prod_beta)
  qed
  then show ?thesis by (simp add: take_rows_def)
qed

lemma feature_rows_lengths:
  assumes "valid_frame df"
  shows "list_all (\<lambda>(c, xs). length xs = index_len (feature_rows df)) (columns (feature_rows df))"
  using assms by (auto simp: valid_frame_def feature_rows_def list_all_iff)

lemma train_test_split_03:
  assumes "length y = index_len X" and "2 \<le> index_len X"
  shows "train_test_split X y 0.3 =
     (let t = (3 * index_len X + 9) div 10; a = index_len X - t
      in Inr (take_rows [0..<a] X, take_rows [a..<a + t] X,
              map (\<lambda>i. y ! i) [0..<a], map (\<lambda>i. y ! i) [a..<a + t]))"
proof -
  have "\<not> index_len X \<le> (3 * index_len X + 9) div 10"
    using assms(2) by arith
  with assms(1) show ?thesis
    unfolding train_test_split_def validate_shuffle_split_03 by (simp add: Let_def)
qed

lemma train_test_split_05:
  assumes "length y = index_len X" and "2 \<le> index_len X"
  shows "train_test_split X y 0.5 =
     (let t = (index_len X + 1) div 2; a = index_len X - t
      in Inr (take_rows [0..<a] X, take_rows [a..<a + t] X,
              map (\<lambda>i. y ! i) [0..<a], map (\<lambda>i. y ! i) [a..<a + t]))"
proof -
  have "\<not> index_len X \<le> (index_len X + 1) div 2"
    using assms(2) by arith
  with assms(1) show ?thesis
    unfolding train_test_split_def validate_shuffle_split_05 by (simp add: Let_def)
qed

lemma map_nth_map_upt:
  assumes "k + j \<le> m"
  shows "map (\<lambda>i. map f [a..<a + m] ! i) [k..<k + j] = map f [a + k..<a + k + j]"
  using assms by (intro nth_equalityI) (auto simp: add.assoc)

lemma split_data_at_least_four:
  assumes "valid_frame df" and "getitem df ''demand'' = Inr d" and "4 \<le> index_len df"
  shows "\<exists>X_train y_train X_val y_val X_test y_test.
           split_data df = Inr (X_train, y_train, X_val, y_val, X_test, y_test) \<and>
           append_rows (append_rows X_train X_val) X_test = feature_rows df \<and>
           y_train @ y_val @ y_test = d \<and>
           (let n = index_len df; t = (3 * n + 9) div 10
            in index_len X_train = n - t \<and> length y_train = n - t \<and>
               index_len X_val = t div 2 \<and> length y_val = t div 2 \<and>
               index_len X_test = (t + 1) div 2 \<and> length y_test = (t + 1) div 2 \<and>
               X_train = take_rows [0..<n - t] (feature_rows df) \<and>
               X_val = take_rows [n - t..<n - t + t div 2] (feature_rows df) \<and>
               X_test = take_rows [n - t + t div 2..<n] (feature_rows df))"
proof -
  define X where "X = feature_rows df"
  define n where "n = index_len df"
  define t where "t = (3 * n + 9) div 10"
  define a where "a = n - t"
  define b where "b = t div 2"
  define c where "c = (t + 1) div 2"
  have len: "length d = n"
    using assms(1,2) unfolding n_def by (rule getitem_length)
  have nX: "index_len X = n" by (simp add: X_def n_def feature_rows_def)
  have n4: "4 \<le> n" using assms(3) by (simp add: n_def)
  have t2: "2 \<le> t" and tn: "t < n" using n4 unfolding t_def by arith+
  have bc: "b + c = t" "t - c = b" unfolding b_def c_def by arith+
  have at: "a + t = n" using tn by (simp add: a_def)
  have s1: "train_test_split X d 0.3 =
      Inr (take_rows [0..<a] X, take_rows [a..<a + t] X,
           map (\<lambda>i. d ! i) [0..<a], map (\<lambda>i. d ! i) [a..<a + t])"
    using len n4 by (simp add: train_test_split_03 nX Let_def t_def a_def)
  let ?Xt = "take_rows [a..<a + t] X"
  let ?yt = "map (\<lambda>i. d ! i) [a..<a + t]"
  have ix: "index_len ?Xt = t" by (simp add: take_rows_def)
  have lt: "length ?yt = index_len ?Xt" by (simp add: take_rows_def)
  have ge: "2 \<le> index_len ?Xt" using t2 ix by simp
  have s2': "train_test_split ?Xt ?yt 0.5 =
      Inr (take_rows [0..<b] ?Xt, take_rows [b..<b + c] ?Xt,
           map (\<lambda>i. ?yt ! i) [0..<b], map (\<lambda>i. ?yt ! i) [b..<b + c])"
    using train_test_split_05 [OF lt ge] unfolding ix Let_def c_def [symmetric] bc(2) .
  have r1: "take_rows [0..<b] ?Xt = take_rows [a..<a + b] X"
    using map_nth_upt_shift [of 0 b t a] bc
    by (simp add: take_rows_take_rows)
  have r2: "take_rows [b..<b + c] ?Xt = take_rows [a + b..<a + b + c] X"
    using map_nth_upt_shift [of b c t a] bc
    by (simp add: take_rows_take_rows)
  have y1: "map (\<lambda>i. ?yt ! i) [0..<b] = map (\<lambda>i. d ! i) [a..<a + b]"
    using map_nth_map_upt [of 0 b t "\<lambda>i. d ! i" a] bc by simp
  have y2: "map (\<lambda>i. ?yt ! i) [b..<b + c] = map (\<lambda>i. d ! i) [a + b..<a + b + c]"
    using map_nth_map_upt [of b c t "\<lambda>i. d ! i" a] bc by simp
  have s2: "train_test_split ?Xt ?yt 0.5 =
      Inr (take_rows [a..<a + b] X, take_rows [a + b..<a + b + c] X,
           map (\<lambda>i. d ! i) [a..<a + b], map (\<lambda>i. d ! i) [a + b..<a + b + c])"
    using s2' by (simp only: r1 r2 y1 y2)
  have abc: "a + b + c = n" using at bc by simp
  have res: "split_data df =
      Inr (take_rows [0..<a] X, map (\<lambda>i. d ! i) [0..<a],
           take_rows [a..<a + b] X, map (\<lambda>i. d ! i) [a..<a + b],
           take_rows [a + b..<n] X, map (\<lambda>i. d ! i) [a + b..<n])"
    using getitems_features [OF assms(1)] assms(2) s1 s2
    by (simp add: split_data_def X_def [symmetric] abc)
  have upt: "[0..<a] @ [a..<a + b] @ [a + b..<n] = [0..<n]"
    using abc by (metis add.assoc le_add1 upt_add_eq_append zero_le add_0)
  have "append_rows (append_rows (take_rows [0..<a] X) (take_rows [a..<a + b] X))
          (take_rows [a + b..<n] X) = take_rows [0..<n] X"
    using upt by (simp add: append_rows_take_rows)
  also have "\<dots> = X"
    using take_rows_all [OF feature_rows_lengths [OF assms(1)]] nX by (simp add: X_def)
  finally have cat: "append_rows (append_rows (take_rows [0..<a] X) (take_rows [a..<a + b] X))
          (take_rows [a + b..<n] X) = X" .
  have "map (\<lambda>i. d ! i) [0..<a] @ map (\<lambda>i. d ! i) [a..<a + b] @ map (\<lambda>i. d ! i) [a + b..<n]
        = map (\<lambda>i. d ! i) [0..<n]"
    using upt by (metis map_append)
  also have "\<dots> = d" using len map_nth [of d] by simp
  finally have ycat: "map (\<lambda>i. d ! i) [0..<a] @ map (\<lambda>i. d ! i) [a..<a + b] @
      map (\<lambda>i. d ! i) [a + b..<n] = d" .
  have sizes: "n - (a + b) = c" using abc by simp
  have il: "index_len (take_rows r X) = length r" for r
    by (simp add: take_rows_def)
  show ?thesis
    unfolding Let_def n_def [symmetric] t_def [symmetric] a_def [symmetric]
      b_def [symmetric] c_def [symmetric] X_def [symmetric] res
    using cat ycat sizes by (simp add: il)
qed

lemma split_data_too_small:
  assumes "valid_frame df" and "getitem df ''demand'' = Inr d" and "index_len df < 4"
  shows "split_data df = Inl ValueError"
proof -
  define X where "X = feature_rows df"
  define n where "n = index_len df"
  have len: "length d = n"
    using assms(1,2) unfolding n_def by (rule getitem_length)
  have nX: "index_len X = n" by (simp add: X_def n_def feature_rows_def)
  have X: "getitems df (filter (\<lambda>col. col \<notin> set [''date'', ''demand'']) (map fst (columns df)))
      = Inr X"
    unfolding X_def by (rule getitems_features [OF assms(1)])
  consider "n < 2" | "n = 2 \<or> n = 3" using assms(3) n_def by linarith
  then show ?thesis
  proof cases
    case 1
    then have "n \<le> (3 * n + 9) div 10" by arith
    then have "train_test_split X d 0.3 = Inl ValueError"
      unfolding train_test_split_def validate_shuffle_split_03 using len nX by simp
    with X assms(2) show ?thesis by (simp add: split_data_def)
  next
    case 2
    then have t: "(3 * n + 9) div 10 = 1" by auto
    have "2 \<le> index_len X" using 2 nX by auto
    with len nX have s1: "train_test_split X d 0.3 =
        Inr (take_rows [0..<n - 1] X, take_rows [n - 1..<n - 1 + 1] X,
             map (\<lambda>i. d ! i) [0..<n - 1], map (\<lambda>i. d ! i) [n - 1..<n - 1 + 1])"
      by (simp add: train_test_split_03 Let_def t)
    have "train_test_split (take_rows [n - 1..<n - 1 + 1] X)
            (map (\<lambda>i. d ! i) [n - 1..<n - 1 + 1]) 0.5 = Inl ValueError"
      unfolding train_test_split_def validate_shuffle_split_05
      by (simp add: take_rows_def)
    with X assms(2) s1 show ?thesis by (simp add: split_data_def)
  qed
qed

text \<open>
  C9, as amended. For a frame with a demand column, \<^verbatim>\<open>split_data\<close> raises ValueError
  when there are fewer than four rows and returns otherwise; then the three feature
  frames concatenated in the order train, validation, test are the original feature
  rows, the three target series concatenated are the demand column, and with
  \<open>t = ceil(3 n / 10)\<close> the train set is the first \<open>n - t\<close> rows, the validation set the
  next \<open>t div 2\<close> rows and the test set the last \<open>(t + 1) div 2\<close> rows.
\<close>

theorem split_data_chronological:
  assumes "valid_frame df" and "getitem df ''demand'' = Inr d"
  shows "(index_len df < 4 \<longrightarrow> split_data df = Inl ValueError) \<and>
         (4 \<le> index_len df \<longrightarrow>
          (\<exists>X_train y_train X_val y_val X_test y_test.
           split_data df = Inr (X_train, y_train, X_val, y_val, X_test, y_test) \<and>
           append_rows (append_rows X_train X_val) X_test = feature_rows df \<and>
           y_train @ y_val @ y_test = d \<and>
           (let n = index_len df; t = (3 * n + 9) div 10
            in index_len X_train = n - t \<and> length y_train = n - t \<and>
               index_len X_val = t div 2 \<and> length y_val = t div 2 \<and>
               index_len X_test = (t + 1) div 2 \<and> length y_test = (t + 1) div 2 \<and>
               X_train = take_rows [0..<n - t] (feature_rows df) \<and>
               X_val = take_rows [n - t..<n - t + t div 2] (feature_rows df) \<and>
               X_test = take_rows [n - t + t div 2..<n] (feature_rows df))))"
  using split_data_too_small [OF assms] split_data_at_least_four [OF assms] by blast

text \<open>
  C9 as stated fails on a frame of three rows: the first split leaves one row for the
  second, whose train set would be empty, and \<^verbatim>\<open>split_data\<close> raises ValueError.
\<close>

theorem split_data_small_frame_raises: "split_data three_frame = Inl ValueError"
  unfolding split_data_def getitems_def train_test_split_def validate_shuffle_split_03
    validate_shuffle_split_05
  by (simp add: three_frame_def getitem_def take_rows_def Let_def)

lemma split_data_ten_frame:
  "split_data ten_frame =
     Inr (\<lparr>index_len = 7, columns =
             [(''dayofweek'', [num 4, num 5, num 6, num 0, num 1, num 2, num 3])]\<rparr>,
          [num 10, num 11, num 12, num 13, num 14, num 15, num 16],
          \<lparr>index_len = 1, columns = [(''dayofweek'', [num 4])]\<rparr>, [num 17],
          \<lparr>index_len = 2, columns = [(''dayofweek'', [num 5, num 6])]\<rparr>,
          [num 18, num 19])"
  unfolding split_data_def getitems_def train_test_split_def validate_shuffle_split_03
    validate_shuffle_split_05
  by (simp add: ten_frame_def getitem_def take_rows_def Let_def upt_rec)

lemma getitems_cols_names:
  "getitems_cols df names = Inr cols \<Longrightarrow> map fst cols = names"
  by (induction names arbitrary: cols) (auto split: sum.splits)

lemma getitems_names:
  "getitems df names = Inr X \<Longrightarrow> map fst (columns X) = names"
  by (auto simp: getitems_def split: sum.splits dest: getitems_cols_names)

lemma names_take_rows: "map fst (columns (take_rows rows X)) = map fst (columns X)"
  by (simp add: take_rows_def comp_def case_prod_beta)

lemma train_test_split_names:
  assumes "train_test_split X y ts = Inr (A, B, ya, yb)"
  shows "map fst (columns A) = map fst (columns X) \<and> map fst (columns B) = map fst (columns X)"
  using assms
  by (auto simp: train_test_split_def Let_def names_take_rows split: if_splits sum.splits)

text \<open>
  C10. The feature frames \<^verbatim>\<open>split_data\<close> produces have exactly the columns of the
  input other than \<open>date\<close> and \<open>demand\<close>, in the input's order; \<open>demand\<close> is not among
  them.
\<close>

theorem split_data_feature_columns:
  assumes "split_data df = Inr (X_train, y_train, X_val, y_val, X_test, y_test)"
  shows "map fst (columns X_train) =
           filter (\<lambda>c. c \<noteq> ''date'' \<and> c \<noteq> ''demand'') (map fst (columns df)) \<and>
         map fst (columns X_val) = map fst (columns X_train) \<and>
         map fst (columns X_test) = map fst (columns X_train) \<and>
         ''demand'' \<notin> set (map fst (columns X_train)) \<and>
         ''demand'' \<notin> set (map fst (columns X_val)) \<and>
         ''demand'' \<notin> set (map fst (columns X_test))"
proof -
  let ?features = "filter (\<lambda>col. col \<notin> set [''date'', ''demand'']) (map fst (columns df))"
  from assms obtain X y X_temp y_temp where
    X: "getitems df ?features = Inr X" and
    s1: "train_test_split X y 0.3 = Inr (X_train, X_temp, y_train, y_temp)" and
    s2: "train_test_split X_temp y_temp 0.5 = Inr (X_val, X_test, y_val, y_test)"
    by (auto simp: split_data_def Let_def split: sum.splits)
  have f: "?features = filter (\<lambda>c. c \<noteq> ''date'' \<and> c \<noteq> ''demand'') (map fst (columns df))"
    by (rule filter_cong) auto
  have "map fst (columns X) = ?features" using X by (rule getitems_names)
  with train_test_split_names [OF s1] train_test_split_names [OF s2] f
  have n: "map fst (columns X_train) = filter (\<lambda>c. c \<noteq> ''date'' \<and> c \<noteq> ''demand'') (map fst (columns df))"
     "map fst (columns X_val) = map fst (columns X_train)"
     "map fst (columns X_test) = map fst (columns X_train)"
    by simp_all
  have "''demand'' \<notin> set (map fst (columns X_train))"
    unfolding n(1) by simp
  with n show ?thesis by simp
qed

theorem split_data_chronological_witness:
  "valid_frame ten_frame \<and>
   getitem ten_frame ''demand'' = Inr (map num [10, 11, 12, 13, 14, 15, 16, 17, 18, 19]) \<and>
   4 \<le> index_len ten_frame \<and>
   (\<exists>X_train y_train X_val y_val X_test y_test.
      split_data ten_frame = Inr (X_train, y_train, X_val, y_val, X_test, y_test) \<and>
      append_rows (append_rows X_train X_val) X_test = feature_rows ten_frame \<and>
      y_train @ y_val @ y_test = map num [10, 11, 12, 13, 14, 15, 16, 17, 18, 19] \<and>
      index_len X_train = 7 \<and> index_len X_val = 1 \<and> index_len X_test = 2)"
proof -
  have v: "valid_frame ten_frame"
    by (simp add: valid_frame_def ten_frame_def)
  have g: "getitem ten_frame ''demand'' = Inr (map num [10, 11, 12, 13, 14, 15, 16, 17, 18, 19])"
    by (simp add: getitem_def ten_frame_def)
  have l: "4 \<le> index_len ten_frame" by (simp add: ten_frame_def)
  have n: "index_len ten_frame = 10" by (simp add: ten_frame_def)
  from split_data_chronological [OF v g, THEN conjunct2, THEN mp, OF l, unfolded n Let_def]
  obtain X_train y_train X_val y_val X_test y_test where
    r: "split_data ten_frame = Inr (X_train, y_train, X_val, y_val, X_test, y_test)"
      "append_rows (append_rows X_train X_val) X_test = feature_rows ten_frame"
      "y_train @ y_val @ y_test = map num [10, 11, 12, 13, 14, 15, 16, 17, 18, 19]"
      "index_len X_train = 10 - (3 * 10 + 9) div 10"
      "index_len X_val = (3 * 10 + 9) div 10 div 2"
      "index_len X_test = ((3 * 10 + 9) div 10 + 1) div 2"
    by blast
  have "index_len X_train = 7" "index_len X_val = 1" "index_len X_test = 2"
    using r(4-6) by simp_all
  with v g l r(1-3) show ?thesis by blast
qed

theorem split_data_feature_columns_witness:
  "split_data ten_frame =
     Inr (\<lparr>index_len = 7, columns =
             [(''dayofweek'', [num 4, num 5, num 6, num 0, num 1, num 2, num 3])]\<rparr>,
          [num 10, num 11, num 12, num 13, num 14, num 15, num 16],
          \<lparr>index_len = 1, columns = [(''dayofweek'', [num 4])]\<rparr>, [num 17],
          \<lparr>index_len = 2, columns = [(''dayofweek'', [num 5, num 6])]\<rparr>,
          [num 18, num 19]) \<and>
   filter (\<lambda>c. c \<noteq> ''date'' \<and> c \<noteq> ''demand'') (map fst (columns ten_frame)) = [''dayofweek'']"
  using split_data_feature_columns [OF split_data_ten_frame] split_data_ten_frame
  by simp

section \<open>Properties of the synthetic data\<close>

lemma map2_same:
  "map (\<lambda>(x, y). h x y) (zip (map f xs) (map g xs)) = map (\<lambda>x. h (f x) (g x)) xs"
  by (induction xs) auto

lemma nd_ops:
  "nd_add (Array (map f xs)) (Array (map g xs)) = Array (map (\<lambda>x. f x + g x) xs)"
  "nd_add (Scalar a) (Array (map g xs)) = Array (map (\<lambda>x. a + g x) xs)"
  "nd_add (Array (map f xs)) (Scalar b) = Array (map (\<lambda>x. f x + b) xs)"
  "nd_add (Scalar a) (Scalar b) = Scalar (a + b)"
  "nd_mul (Scalar a) (Array (map g xs)) = Array (map (\<lambda>x. a * g x) xs)"
  "nd_mul (Array (map f xs)) (Scalar b) = Array (map (\<lambda>x. f x * b) xs)"
  "nd_div (Array (map f xs)) (Scalar b) = Array (map (\<lambda>x. f x / b) xs)"
  "nd_maximum (Array (map f xs)) (Scalar b) = Array (map (\<lambda>x. max (f x) b) xs)"
  "nd_map k (Array (map f xs)) = Array (map (\<lambda>x. k (f x)) xs)"
  by (simp_all add: nd_add_def nd_mul_def nd_div_def nd_maximum_def map2_same comp_def)

lemma getitem_new_frame:
  "getitem \<lparr>index_len = n, columns = [(''date'', xs), (''demand'', ys)]\<rparr> ''demand'' = Inr ys"
  by (simp add: getitem_def)

lemma generate_demand_data_returns:
  assumes "0 \<le> n_periods" and "n_periods \<le> 88124" and "0 \<le> noise_level"
  shows "\<exists>df. generate_demand_data n_periods seasonality trend noise_level gauss = Inr df \<and>
          index_len df = nat n_periods \<and>
          getitem df ''demand'' =
            Inr (map (\<lambda>t. num (max 0 (spec_demand seasonality trend noise_level gauss t)))
                   [0..<nat n_periods])"
proof -
  have s: "\<not> (noise_level * 100 < 0 \<or> n_periods < 0)" "\<not> 88124 < n_periods"
    using assms by simp_all
  show ?thesis
    unfolding generate_demand_data_def Let_def random_normal_def arange_def
    using s
    by (cases trend; cases seasonality)
       (simp_all add: nd_ops getitem_setitem getitem_new_frame index_len_setitem
          date_range_2021_def spec_demand_def max.commute algebra_simps comp_def)
qed

lemma generate_demand_data_raises:
  assumes "n_periods < 0 \<or> noise_level < 0"
  shows "generate_demand_data n_periods seasonality trend noise_level gauss = Inl ValueError"
proof -
  have "noise_level * 100 < 0 \<or> n_periods < 0" using assms by auto
  then show ?thesis
    unfolding generate_demand_data_def Let_def random_normal_def by simp
qed

lemma generate_demand_data_out_of_bounds:
  assumes "88124 < n_periods" and "0 \<le> noise_level"
  shows "generate_demand_data n_periods seasonality trend noise_level gauss =
           Inl OutOfBoundsDatetime"
proof -
  have "\<not> (noise_level * 100 < 0 \<or> n_periods < 0)" using assms by simp
  then show ?thesis
    unfolding generate_demand_data_def Let_def random_normal_def date_range_2021_def
    using assms(1) by simp
qed

lemma generate_demand_data_returns_iff:
  "(\<exists>df. generate_demand_data n_periods seasonality trend noise_level gauss = Inr df) \<longleftrightarrow>
     0 \<le> n_periods \<and> n_periods \<le> 88124 \<and> 0 \<le> noise_level"
proof
  assume r: "\<exists>df. generate_demand_data n_periods seasonality trend noise_level gauss = Inr df"
  show "0 \<le> n_periods \<and> n_periods \<le> 88124 \<and> 0 \<le> noise_level"
  proof (rule ccontr)
    assume "\<not> (0 \<le> n_periods \<and> n_periods \<le> 88124 \<and> 0 \<le> noise_level)"
    then consider "n_periods < 0 \<or> noise_level < 0" | "88124 < n_periods \<and> 0 \<le> noise_level"
      by linarith
    then show False
    proof cases
      case 1
      from generate_demand_data_raises [OF this, of seasonality trend gauss] r show False by simp
    next
      case 2
      then have "generate_demand_data n_periods seasonality trend noise_level gauss =
          Inl OutOfBoundsDatetime"
        by (intro generate_demand_data_out_of_bounds) auto
      with r show False by simp
    qed
  qed
next
  assume "0 \<le> n_periods \<and> n_periods \<le> 88124 \<and> 0 \<le> noise_level"
  then show "\<exists>df. generate_demand_data n_periods seasonality trend noise_level gauss = Inr df"
    using generate_demand_data_returns [of n_periods noise_level seasonality trend gauss]
    by blast
qed

text \<open>
  C6. \<^verbatim>\<open>generate_demand_data\<close> returns a frame exactly when the count of periods is
  between 0 and 88124 and the noise level is not negative; otherwise numpy or pandas
  raises. The demand column of every frame it returns, whatever the draws, has one
  cell per period, the cell at time \<open>t\<close> being
  \<open>max 0 (100 + 0.1 t + 10 sin(2 pi t / 7) + 20 sin(2 pi t / 30) + 50 sin(2 pi t / 365)
  + noise t)\<close>, without the \<open>0.1 t\<close> term when \<open>trend\<close> is off and without the three
  sinusoids when \<open>seasonality\<close> is off; \<open>noise t\<close> is \<open>noise_level * 100\<close> times the
  draw of that day.
\<close>

theorem generate_demand_data_formula:
  "((\<exists>df. generate_demand_data n_periods seasonality trend noise_level gauss = Inr df) \<longleftrightarrow>
      0 \<le> n_periods \<and> n_periods \<le> 88124 \<and> 0 \<le> noise_level) \<and>
   (\<forall>df. generate_demand_data n_periods seasonality trend noise_level gauss = Inr df \<longrightarrow>
      (\<exists>d. getitem df ''demand'' = Inr d \<and> length d = nat n_periods \<and>
         (\<forall>t<nat n_periods.
            d ! t = num (max 0
              (100 + (if trend then 0.1 * real t else 0)
                   + (if seasonality
                      then 10 * sin (2 * pi * real t / 7) + 20 * sin (2 * pi * real t / 30)
                           + 50 * sin (2 * pi * real t / 365)
                      else 0)
                   + noise_level * 100 * gauss t)))))"
proof (intro conjI allI impI)
  show "(\<exists>df. generate_demand_data n_periods seasonality trend noise_level gauss = Inr df) \<longleftrightarrow>
      0 \<le> n_periods \<and> n_periods \<le> 88124 \<and> 0 \<le> noise_level"
    by (rule generate_demand_data_returns_iff)
next
  fix df
  assume r: "generate_demand_data n_periods seasonality trend noise_level gauss = Inr df"
  then have ok: "0 \<le> n_periods" "n_periods \<le> 88124" "0 \<le> noise_level"
    using generate_demand_data_returns_iff [of n_periods seasonality trend noise_level gauss]
    by blast+
  from generate_demand_data_returns [OF ok, of seasonality trend gauss] r
  have "getitem df ''demand'' =
         Inr (map (\<lambda>t. num (max 0 (spec_demand seasonality trend noise_level gauss t)))
                [0..<nat n_periods])"
    by auto
  then show "\<exists>d. getitem df ''demand'' = Inr d \<and> length d = nat n_periods \<and>
         (\<forall>t<nat n_periods.
            d ! t = num (max 0
              (100 + (if trend then 0.1 * real t else 0)
                   + (if seasonality
                      then 10 * sin (2 * pi * real t / 7) + 20 * sin (2 * pi * real t / 30)
                           + 50 * sin (2 * pi * real t / 365)
                      else 0)
                   + noise_level * 100 * gauss t)))"
    by (auto simp: spec_demand_def)
qed

theorem generate_demand_data_formula_witness:
  "(0::int) \<le> 6 \<and> (6::int) \<le> 88124 \<and> (0::real) \<le> 0.2 \<and>
   (\<exists>df d. generate_demand_data 6 True True 0.2 (\<lambda>i. 1) = Inr df \<and>
      getitem df ''demand'' = Inr d \<and> length d = 6 \<and>
      d ! 5 = num (100 + 0.1 * 5 + 10 * sin (2 * pi * 5 / 7) + 20 * sin (2 * pi * 5 / 30)
                  + 50 * sin (2 * pi * 5 / 365) + 0.2 * 100 * 1))"
proof -
  let ?x = "100 + 0.1 * 5 + 10 * sin (2 * pi * 5 / 7) + 20 * sin (2 * pi * 5 / 30)
              + 50 * sin (2 * pi * 5 / 365) + 0.2 * 100 * (1::real)"
  note t = generate_demand_data_formula [of 6 True True "0.2" "\<lambda>i. 1"]
  have h: "(0::int) \<le> 6 \<and> (6::int) \<le> 88124 \<and> (0::real) \<le> 0.2" by simp
  with t obtain df where df: "generate_demand_data 6 True True 0.2 (\<lambda>i. 1) = Inr df"
    by blast
  with t obtain d where d: "getitem df ''demand'' = Inr d" "length d = nat 6"
    "\<forall>t<nat 6. d ! t = num (max 0
              (100 + (if True then 0.1 * real t else 0)
                   + (if True
                      then 10 * sin (2 * pi * real t / 7) + 20 * sin (2 * pi * real t / 30)
                           + 50 * sin (2 * pi * real t / 365)
                      else 0)
                   + 0.2 * 100 * 1))"
    by blast
  from d(3) have "d ! 5 = num (max 0 ?x)" by simp
  moreover have "0 \<le> ?x"
    using sin_ge_minus_one [of "2 * pi * 5 / 7"] sin_ge_minus_one [of "2 * pi * 5 / 30"]
      sin_ge_minus_one [of "2 * pi * 5 / 365"]
    by linarith
  ultimately have "d ! 5 = num ?x" by (simp add: max_def)
  with h df d(1,2) show ?thesis by auto
qed

text \<open>
  C8. Whatever the arguments and the draws, every cell of the demand column of a frame
  returned by \<^verbatim>\<open>generate_demand_data\<close> holds a finite number that is not negative.
\<close>

theorem demand_nonnegative:
  assumes "generate_demand_data n_periods seasonality trend noise_level gauss = Inr df"
    and "getitem df ''demand'' = Inr d" and "x \<in> set d"
  shows "\<exists>v. x = num v \<and> 0 \<le> v"
proof -
  have ok: "0 \<le> n_periods" "n_periods \<le> 88124" "0 \<le> noise_level"
    using assms(1)
      generate_demand_data_returns_iff [of n_periods seasonality trend noise_level gauss]
    by blast+
  from generate_demand_data_returns [OF ok, of seasonality trend gauss] assms(1,2)
  have "d = map (\<lambda>t. num (max 0 (spec_demand seasonality trend noise_level gauss t)))
              [0..<nat n_periods]"
    by auto
  with assms(3) show ?thesis by auto
qed

theorem demand_nonnegative_witness:
  "generate_demand_data 2 False True 0.2 (\<lambda>i. - 10) =
     Inr \<lparr>index_len = 2, columns =
       [(''date'', [num 18628, num 18629]), (''demand'', [num 0, num 0]),
        (''dayofweek'', [num 4, num 5]), (''month'', [num 1, num 1]),
        (''day'', [num 1, num 2]), (''year'', [num 2021, num 2021]),
        (''quarter'', [num 1, num 1])]\<rparr> \<and>
   (\<exists>v. (num 0 :: cell) = num v \<and> 0 \<le> v)"
proof -
  let ?df = "\<lparr>index_len = 2, columns =
       [(''date'', [num 18628, num 18629]), (''demand'', [num 0, num 0]),
        (''dayofweek'', [num 4, num 5]), (''month'', [num 1, num 1]),
        (''day'', [num 1, num 2]), (''year'', [num 2021, num 2021]),
        (''quarter'', [num 1, num 1])]\<rparr> :: frame"
  have c: "civil 18628 = (2021, 1, 1)" "civil 18629 = (2021, 1, 2)"
    by code_simp+
  have dates: "date_range_2021 2 = Inr [18628, 18629]"
    by (simp add: date_range_2021_def upt_rec)
  have noise: "random_normal (\<lambda>i. - 10) 0 (0.2 * 100) 2 = Inr (Array [- 200, - 200])"
    by (simp add: random_normal_def upt_rec)
  have ar: "arange 2 = Array [0, 1]"
    by (simp add: arange_def upt_rec)
  have g: "generate_demand_data 2 False True 0.2 (\<lambda>i. - 10) = Inr ?df"
    unfolding generate_demand_data_def Let_def dates noise ar
    by (simp add: nd_add_def nd_mul_def nd_maximum_def setitem_def
        dt_dayofweek_def dt_month_def dt_day_def dt_year_def dt_quarter_def c)
  have d: "getitem ?df ''demand'' = Inr [num 0, num 0]"
    by (simp add: getitem_def)
  have m: "(num 0 :: cell) \<in> set [num 0, num 0]" by simp
  from demand_nonnegative [OF g d m] g show ?thesis by simp
qed

section \<open>Properties of the calls to the platform\<close>

lemma propagates_but_ret: "propagates_but S (ret x)"
  by (simp add: propagates_but_def ret_def)

lemma propagates_but_lift: "propagates_but S (lift r)"
  by (cases r) (auto simp: propagates_but_def lift_def)

lemma propagates_but_ext: "propagates_but S (ext c)"
  by (auto simp: propagates_but_def ext_def)

lemma propagates_but_ext_text: "propagates_but S (ext_text c)"
  by (auto simp: propagates_but_def ext_text_def)

lemma propagates_but_ext_numbers: "propagates_but S (ext_numbers c)"
  by (auto simp: propagates_but_def ext_numbers_def)

lemma propagates_but_and_then:
  assumes m: "propagates_but S m" and f: "\<And>x. propagates_but S (f x)"
  shows "propagates_but S (and_then m f)"
  unfolding propagates_but_def
proof (intro allI impI)
  fix w trace r trace'
  assume run: "and_then m f w trace = (r, trace')"
  obtain r1 t1 where m1: "m w trace = (r1, t1)" by (cases "m w trace")
  with m obtain new1 where n1: "t1 = trace @ new1"
    and p1: "\<forall>ev\<in>set new1. \<forall>e.
        ev = Raise e \<or> (\<exists>c. ev = Call c \<and> c \<notin> S \<and> outcome w c = Some e) \<longrightarrow> r1 = Inl e"
    unfolding propagates_but_def by blast
  show "\<exists>new. trace' = trace @ new \<and>
          (\<forall>ev\<in>set new. \<forall>e.
             ev = Raise e \<or> (\<exists>c. ev = Call c \<and> c \<notin> S \<and> outcome w c = Some e) \<longrightarrow>
             r = Inl e)"
  proof (cases r1)
    case (Inl e)
    with run m1 have "r = Inl e" "trace' = t1" by (simp_all add: and_then_def)
    with n1 p1 Inl show ?thesis by auto
  next
    case (Inr x)
    with run m1 have fx: "f x w t1 = (r, trace')" by (simp add: and_then_def)
    with f [of x] obtain new2 where n2: "trace' = t1 @ new2"
      and p2: "\<forall>ev\<in>set new2. \<forall>e.
          ev = Raise e \<or> (\<exists>c. ev = Call c \<and> c \<notin> S \<and> outcome w c = Some e) \<longrightarrow> r = Inl e"
      unfolding propagates_but_def by blast
    have "\<forall>ev\<in>set (new1 @ new2). \<forall>e.
        ev = Raise e \<or> (\<exists>c. ev = Call c \<and> c \<notin> S \<and> outcome w c = Some e) \<longrightarrow> r = Inl e"
      using p1 p2 Inr by auto
    with n1 n2 show ?thesis by (intro exI [of _ "new1 @ new2"]) simp
  qed
qed

lemma propagates_but_try_except:
  assumes body: "\<And>w trace r trace'. body w trace = (r, trace') \<Longrightarrow>
      \<exists>new. trace' = trace @ new \<and> set new \<subseteq> Call ` S"
    and h: "propagates_but S handler"
  shows "propagates_but S (try_except body handler)"
  unfolding propagates_but_def
proof (intro allI impI)
  fix w trace r trace'
  assume run: "try_except body handler w trace = (r, trace')"
  obtain r1 t1 where b1: "body w trace = (r1, t1)" by (cases "body w trace")
  with body obtain new1 where n1: "t1 = trace @ new1" and s1: "set new1 \<subseteq> Call ` S" by blast
  show "\<exists>new. trace' = trace @ new \<and>
          (\<forall>ev\<in>set new. \<forall>e.
             ev = Raise e \<or> (\<exists>c. ev = Call c \<and> c \<notin> S \<and> outcome w c = Some e) \<longrightarrow>
             r = Inl e)"
  proof (cases r1)
    case (Inl e)
    with run b1 have "handler w t1 = (r, trace')" by (simp add: try_except_def)
    with h obtain new2 where n2: "trace' = t1 @ new2"
      and p2: "\<forall>ev\<in>set new2. \<forall>e.
          ev = Raise e \<or> (\<exists>c. ev = Call c \<and> c \<notin> S \<and> outcome w c = Some e) \<longrightarrow> r = Inl e"
      unfolding propagates_but_def by blast
    have "\<forall>ev\<in>set (new1 @ new2). \<forall>e.
        ev = Raise e \<or> (\<exists>c. ev = Call c \<and> c \<notin> S \<and> outcome w c = Some e) \<longrightarrow> r = Inl e"
      using s1 p2 by auto
    with n1 n2 show ?thesis by (intro exI [of _ "new1 @ new2"]) simp
  next
    case (Inr x)
    with run b1 have "trace' = t1" by (simp add: try_except_def)
    with n1 s1 show ?thesis by (intro exI [of _ new1]) auto
  qed
qed

lemmas propagates_intros =
  propagates_but_and_then propagates_but_ret propagates_but_lift propagates_but_ext
  propagates_but_ext_text propagates_but_ext_numbers

lemma propagates_visualize_data: "propagates (visualize_data df)"
  unfolding propagates_def visualize_data_def by (intro propagates_intros)

lemma propagates_save_data_to_s3:
  "propagates (save_data_to_s3 X_train y_train X_val y_val X_test y_test bucket)"
  unfolding propagates_def save_data_to_s3_def Let_def by (intro propagates_intros)

lemma propagates_train_model:
  "propagates (train_model train_s3_path val_s3_path role bucket instance_type)"
  unfolding propagates_def train_model_def Let_def by (intro propagates_intros)

lemma propagates_generate_prediction_with_boto3:
  "propagates (generate_prediction_with_boto3 endpoint test_sample)"
  unfolding propagates_def generate_prediction_with_boto3_def by (intro propagates_intros)

lemma propagates_test_endpoint: "propagates (test_endpoint predictor test_sample actual)"
  unfolding propagates_def test_endpoint_def by (intro propagates_intros)

lemma propagates_but_initialize_session:
  "propagates_but {GetExecutionRole} initialize_session"
  unfolding initialize_session_def
  by (intro propagates_intros propagates_but_try_except) (auto simp: ext_text_def)

lemma propagates_but_deploy_model:
  "propagates_but {Boto3Client ''sagemaker'', DeleteEndpointConfig ''ml-models-as-tools''}
     (deploy_model xgb_estimator predictor instance_type)"
  unfolding deploy_model_def
  by (intro propagates_intros propagates_but_try_except)
     (auto simp: ext_def and_then_def split: option.splits)

lemma deploy_model_run:
  "deploy_model xgb_estimator predictor instance_type w trace =
     (let d = Deploy xgb_estimator
               \<lparr>dep_endpoint_name = ''ml-models-as-tools'',
                dep_initial_instance_count = 1,
                dep_instance_type = instance_type,
                dep_serializer = JSONSerializer,
                dep_deserializer = JSONDeserializer\<rparr>
      in (case outcome w d of
            Some e \<Rightarrow> Inl e
          | None \<Rightarrow> Inr \<lparr>endpoint_name = ''ml-models-as-tools''\<rparr>,
          trace @ (if outcome w (Boto3Client ''sagemaker'') = None
                 then [Call (Boto3Client ''sagemaker''),
                       Call (DeleteEndpointConfig ''ml-models-as-tools'')]
                 else [Call (Boto3Client ''sagemaker'')]) @ [Call d]))"
  by (simp add: deploy_model_def and_then_def try_except_def ext_def ret_def Let_def
      split: option.splits)

text \<open>
  C4. In every world, \<^verbatim>\<open>deploy_model\<close> first tries to delete the endpoint
  configuration \<open>ml-models-as-tools\<close> (creating the client, then the delete call),
  then makes the deploy call, whatever the attempt did; its result is that of the
  deploy call alone, so an error of the attempt never makes it fail.
\<close>

theorem deploy_model_best_effort_delete:
  "\<exists>attempt d.
     d = Deploy xgb_estimator
           \<lparr>dep_endpoint_name = ''ml-models-as-tools'',
            dep_initial_instance_count = 1,
            dep_instance_type = instance_type,
            dep_serializer = JSONSerializer,
            dep_deserializer = JSONDeserializer\<rparr> \<and>
     attempt = (if outcome w (Boto3Client ''sagemaker'') = None
                then [Call (Boto3Client ''sagemaker''),
                      Call (DeleteEndpointConfig ''ml-models-as-tools'')]
                else [Call (Boto3Client ''sagemaker'')]) \<and>
     snd (deploy_model xgb_estimator predictor instance_type w []) = attempt @ [Call d] \<and>
     fst (deploy_model xgb_estimator predictor instance_type w []) =
       (case outcome w d of
          Some e \<Rightarrow> Inl e
        | None \<Rightarrow> Inr \<lparr>endpoint_name = ''ml-models-as-tools''\<rparr>)"
  by (simp add: deploy_model_run Let_def)

theorem deploy_model_best_effort_delete_witness:
  "outcome no_config_world (DeleteEndpointConfig ''ml-models-as-tools'') = Some (Raised ''ClientError'') \<and>
   deploy_model demo_estimator demo_estimator ''ml.m5.xlarge'' no_config_world [] =
     (Inr \<lparr>endpoint_name = ''ml-models-as-tools''\<rparr>,
      [Call (Boto3Client ''sagemaker''), Call (DeleteEndpointConfig ''ml-models-as-tools''),
       Call (Deploy demo_estimator
         \<lparr>dep_endpoint_name = ''ml-models-as-tools'',
          dep_initial_instance_count = 1,
          dep_instance_type = ''ml.m5.xlarge'',
          dep_serializer = JSONSerializer,
          dep_deserializer = JSONDeserializer\<rparr>)])"
  using deploy_model_best_effort_delete
    [of demo_estimator "''ml.m5.xlarge''" no_config_world demo_estimator]
  by (simp add: no_config_world_def prod_eq_iff)

text \<open>
  C7. In every world, \<^verbatim>\<open>train_model\<close> first constructs the XGBoost estimator with the
  objective \<open>reg:squarederror\<close>, 100 rounds, depth 6 and eta 0.2, with the role and
  instance type it is given; when the constructor does not raise, the one further call
  is \<^verbatim>\<open>fit\<close> on that estimator with exactly the channels \<open>train\<close> and \<open>validation\<close> at
  the two given paths; the estimator is returned when neither call raises.
\<close>

theorem train_model_configuration:
  "\<exists>est r trace.
     train_model train_s3_path val_s3_path role bucket instance_type w [] = (r, trace) \<and>
     map_of (est_hyperparameters est) ''objective'' = Some (HStr ''reg:squarederror'') \<and>
     map_of (est_hyperparameters est) ''num_round'' = Some (HInt 100) \<and>
     map_of (est_hyperparameters est) ''max_depth'' = Some (HInt 6) \<and>
     map_of (est_hyperparameters est) ''eta'' = Some (HFloat 0.2) \<and>
     est_role est = role \<and> est_instance_type est = instance_type \<and>
     trace = Call (XGBoost est) #
       (if outcome w (XGBoost est) = None
        then [Call (Fit est [(''train'', train_s3_path), (''validation'', val_s3_path)])]
        else []) \<and>
     (r = Inr est \<longleftrightarrow>
        outcome w (XGBoost est) = None \<and>
        outcome w (Fit est [(''train'', train_s3_path), (''validation'', val_s3_path)]) = None)"
proof -
  define est where "est =
     \<lparr>est_entry_point = ''training_script.py'',
      est_source_dir = ''utils'',
      est_framework_version = ''1.5-1'',
      est_hyperparameters =
        [(''max_depth'', HInt 6), (''eta'', HFloat 0.2), (''gamma'', HInt 4),
         (''min_child_weight'', HInt 6), (''subsample'', HFloat 0.8),
         (''objective'', HStr ''reg:squarederror''), (''num_round'', HInt 100),
         (''verbosity'', HInt 1)],
      est_role = role,
      est_instance_count = 1,
      est_instance_type = instance_type,
      est_output_path = ''s3://'' @ bucket @ ''/demand-forecast/output'',
      est_keep_alive_period_in_seconds = 3600\<rparr>"
  let ?fit = "Fit est [(''train'', train_s3_path), (''validation'', val_s3_path)]"
  have run: "train_model train_s3_path val_s3_path role bucket instance_type w [] =
      (case outcome w (XGBoost est) of
         Some e \<Rightarrow> (Inl e, [Call (XGBoost est)])
       | None \<Rightarrow>
           (case outcome w ?fit of Some e \<Rightarrow> Inl e | None \<Rightarrow> Inr est,
            [Call (XGBoost est), Call ?fit]))"
    unfolding train_model_def Let_def est_def [symmetric]
    by (simp add: and_then_def ext_def ret_def split: option.splits)
  have hp: "map_of (est_hyperparameters est) ''objective'' = Some (HStr ''reg:squarederror'')"
    "map_of (est_hyperparameters est) ''num_round'' = Some (HInt 100)"
    "map_of (est_hyperparameters est) ''max_depth'' = Some (HInt 6)"
    "map_of (est_hyperparameters est) ''eta'' = Some (HFloat 0.2)"
    "est_role est = role" "est_instance_type est = instance_type"
    by (simp_all add: est_def)
  show ?thesis
    unfolding run
    by (rule exI [of _ est]) (simp add: hp split: option.splits)
qed

theorem train_model_configuration_witness:
  "train_model ''s3://sagemaker-us-east-1-123456789012/demand-forecast/data/train.csv''
     ''s3://sagemaker-us-east-1-123456789012/demand-forecast/data/validation.csv''
     ''arn:aws:iam::123456789012:role/notebook'' ''sagemaker-us-east-1-123456789012''
     ''ml.m5.4xlarge'' calm_world [] =
   (Inr demo_estimator,
    [Call (XGBoost demo_estimator),
     Call (Fit demo_estimator
       [(''train'', ''s3://sagemaker-us-east-1-123456789012/demand-forecast/data/train.csv''),
        (''validation'',
         ''s3://sagemaker-us-east-1-123456789012/demand-forecast/data/validation.csv'')])])"
proof -
  let ?t = "''s3://sagemaker-us-east-1-123456789012/demand-forecast/data/train.csv''"
  let ?v = "''s3://sagemaker-us-east-1-123456789012/demand-forecast/data/validation.csv''"
  let ?run = "train_model ?t ?v ''arn:aws:iam::123456789012:role/notebook''
     ''sagemaker-us-east-1-123456789012'' ''ml.m5.4xlarge'' calm_world []"
  from train_model_configuration
    [of ?t ?v "''arn:aws:iam::123456789012:role/notebook''" "''sagemaker-us-east-1-123456789012''"
        "''ml.m5.4xlarge''" calm_world]
  obtain est r trace where
    run: "?run = (r, trace)" and
    tr: "trace = Call (XGBoost est) #
       (if outcome calm_world (XGBoost est) = None
        then [Call (Fit est [(''train'', ?t), (''validation'', ?v)])]
        else [])" and
    res: "r = Inr est \<longleftrightarrow> outcome calm_world (XGBoost est) = None \<and>
        outcome calm_world (Fit est [(''train'', ?t), (''validation'', ?v)]) = None"
    by blast
  have ok: "outcome calm_world c = None" for c by (simp add: calm_world_def)
  have "snd ?run = [Call (XGBoost demo_estimator),
      Call (Fit demo_estimator [(''train'', ?t), (''validation'', ?v)])]"
    by (simp add: train_model_def and_then_def ext_def ret_def Let_def ok demo_estimator_def)
  with run tr have "est = demo_estimator" by simp
  with run tr res ok show ?thesis by simp
qed

lemma strip_typed:
  "strip '' arn:aws:iam::123456789012:role/typed  '' = ''arn:aws:iam::123456789012:role/typed''"
  by (simp add: strip_def isspace_def)

text \<open>
  C5 as stated fails at session initialisation: in a world where
  \<^verbatim>\<open>sagemaker.get_execution_role\<close> raises, the error is caught, the role is read from
  the keyboard instead, and the cell ends without an error.
\<close>

theorem initialize_session_falls_back:
  "outcome no_role_world GetExecutionRole = Some ValueError \<and>
   initialize_session no_role_world [] =
     (Inr \<lparr>bucket_of = ''sagemaker-us-east-1-123456789012'', region_of = ''us-east-1'',
           role_of = ''arn:aws:iam::123456789012:role/typed''\<rparr>,
      [Call SagemakerSession, Call DefaultBucket, Call Boto3SessionRegionName,
       Call GetExecutionRole,
       Call (Input ''> Enter the role ARN for your SageMaker execution role: '')])"
  by (simp add: initialize_session_def and_then_def try_except_def ext_def ext_text_def ret_def
      no_role_world_def calm_world_def strip_typed)

lemma initialize_session_fallback:
  assumes "outcome w SagemakerSession = None" and "outcome w DefaultBucket = None"
    and "outcome w Boto3SessionRegionName = None" and "outcome w GetExecutionRole = Some e"
    and "outcome w (Input ''> Enter the role ARN for your SageMaker execution role: '') = None"
  shows "fst (initialize_session w []) =
     Inr \<lparr>bucket_of = text_of w DefaultBucket, region_of = text_of w Boto3SessionRegionName,
          role_of = strip (text_of w
            (Input ''> Enter the role ARN for your SageMaker execution role: ''))\<rparr>"
  using assms
  by (simp add: initialize_session_def and_then_def try_except_def ext_def ext_text_def ret_def)

lemma prepare_features_raises:
  "getitem df ''demand'' = Inl e \<Longrightarrow> prepare_features df = Inl e"
  by (simp add: prepare_features_def add_lag_def)

lemma split_data_sites:
  fixes df :: frame
  defines "features \<equiv> filter (\<lambda>col. col \<notin> set [''date'', ''demand'']) (map fst (columns df))"
  shows "getitems df features = Inl e \<longrightarrow> split_data df = Inl e"
    and "getitems df features = Inr X \<and> getitem df ''demand'' = Inl e \<longrightarrow> split_data df = Inl e"
    and "getitems df features = Inr X \<and> getitem df ''demand'' = Inr y \<and>
         train_test_split X y 0.3 = Inl e \<longrightarrow> split_data df = Inl e"
    and "getitems df features = Inr X \<and> getitem df ''demand'' = Inr y \<and>
         train_test_split X y 0.3 = Inr (X_train, X_temp, y_train, y_temp) \<and>
         train_test_split X_temp y_temp 0.5 = Inl e \<longrightarrow> split_data df = Inl e"
  unfolding features_def by (simp_all add: split_data_def Let_def)

lemma generate_demand_data_sites:
  shows "random_normal gauss 0 (noise_level * 100) n_periods = Inl e \<longrightarrow>
           generate_demand_data n_periods seasonality trend noise_level gauss = Inl e"
    and "random_normal gauss 0 (noise_level * 100) n_periods = Inr noise \<and>
         date_range_2021 n_periods = Inl e \<longrightarrow>
           generate_demand_data n_periods seasonality trend noise_level gauss = Inl e"
  by (simp_all add: generate_demand_data_def Let_def)

text \<open>
  C5, as amended. The notebook recovers from a failure in two places. At session
  initialisation an error of \<^verbatim>\<open>sagemaker.get_execution_role\<close> is caught and the role is
  what the user types, stripped; \<^verbatim>\<open>deploy_model\<close> suppresses the errors of its attempt
  to delete the endpoint configuration. Every other error propagates. In
  \<^verbatim>\<open>visualize_data\<close>, \<^verbatim>\<open>save_data_to_s3\<close>, \<^verbatim>\<open>train_model\<close>,
  \<^verbatim>\<open>generate_prediction_with_boto3\<close> and \<^verbatim>\<open>test_endpoint\<close>, and in the other steps of
  session initialisation and of \<^verbatim>\<open>deploy_model\<close>, every error raised, by a call or by
  the notebook's own computation, is the result. In \<^verbatim>\<open>prepare_features\<close>,
  \<^verbatim>\<open>split_data\<close> and \<^verbatim>\<open>generate_demand_data\<close> the error of each step that can raise
  (reading a column, either split, the noise draw, the date range) is the result.
\<close>

theorem failure_recovery_logic:
  "propagates_but {GetExecutionRole} initialize_session \<and>
   (outcome w SagemakerSession = None \<and> outcome w DefaultBucket = None \<and>
    outcome w Boto3SessionRegionName = None \<and> outcome w GetExecutionRole \<noteq> None \<and>
    outcome w (Input ''> Enter the role ARN for your SageMaker execution role: '') = None \<longrightarrow>
    fst (initialize_session w []) =
      Inr \<lparr>bucket_of = text_of w DefaultBucket, region_of = text_of w Boto3SessionRegionName,
           role_of = strip (text_of w
             (Input ''> Enter the role ARN for your SageMaker execution role: ''))\<rparr>) \<and>
   propagates_but {Boto3Client ''sagemaker'', DeleteEndpointConfig ''ml-models-as-tools''}
     (deploy_model xgb_estimator predictor instance_type) \<and>
   propagates (visualize_data df) \<and>
   propagates (save_data_to_s3 X_train y_train X_val y_val X_test y_test bucket) \<and>
   propagates (train_model train_s3_path val_s3_path role bucket instance_type) \<and>
   propagates (generate_prediction_with_boto3 endpoint test_sample) \<and>
   propagates (test_endpoint p test_sample actual) \<and>
   (getitem df ''demand'' = Inl e \<longrightarrow> prepare_features df = Inl e) \<and>
   (let features = filter (\<lambda>col. col \<notin> set [''date'', ''demand'']) (map fst (columns df))
    in (getitems df features = Inl e \<longrightarrow> split_data df = Inl e) \<and>
       (getitems df features = Inr X \<and> getitem df ''demand'' = Inl e \<longrightarrow>
          split_data df = Inl e) \<and>
       (getitems df features = Inr X \<and> getitem df ''demand'' = Inr y \<and>
        train_test_split X y 0.3 = Inl e \<longrightarrow> split_data df = Inl e) \<and>
       (getitems df features = Inr X \<and> getitem df ''demand'' = Inr y \<and>
        train_test_split X y 0.3 = Inr (X_tr, X_temp, y_tr, y_temp) \<and>
        train_test_split X_temp y_temp 0.5 = Inl e \<longrightarrow> split_data df = Inl e)) \<and>
   (random_normal gauss 0 (noise_level * 100) n_periods = Inl e \<longrightarrow>
      generate_demand_data n_periods seasonality trend noise_level gauss = Inl e) \<and>
   (random_normal gauss 0 (noise_level * 100) n_periods = Inr noise \<and>
    date_range_2021 n_periods = Inl e \<longrightarrow>
      generate_demand_data n_periods seasonality trend noise_level gauss = Inl e)"
proof -
  have fb: "outcome w SagemakerSession = None \<and> outcome w DefaultBucket = None \<and>
    outcome w Boto3SessionRegionName = None \<and> outcome w GetExecutionRole \<noteq> None \<and>
    outcome w (Input ''> Enter the role ARN for your SageMaker execution role: '') = None \<longrightarrow>
    fst (initialize_session w []) =
      Inr \<lparr>bucket_of = text_of w DefaultBucket, region_of = text_of w Boto3SessionRegionName,
           role_of = strip (text_of w
             (Input ''> Enter the role ARN for your SageMaker execution role: ''))\<rparr>"
    using initialize_session_fallback [of w] by auto
  have pf: "getitem df ''demand'' = Inl e \<longrightarrow> prepare_features df = Inl e"
    using prepare_features_raises [of df e] by auto
  have sd: "let features = filter (\<lambda>col. col \<notin> set [''date'', ''demand'']) (map fst (columns df))
    in (getitems df features = Inl e \<longrightarrow> split_data df = Inl e) \<and>
       (getitems df features = Inr X \<and> getitem df ''demand'' = Inl e \<longrightarrow>
          split_data df = Inl e) \<and>
       (getitems df features = Inr X \<and> getitem df ''demand'' = Inr y \<and>
        train_test_split X y 0.3 = Inl e \<longrightarrow> split_data df = Inl e) \<and>
       (getitems df features = Inr X \<and> getitem df ''demand'' = Inr y \<and>
        train_test_split X y 0.3 = Inr (X_tr, X_temp, y_tr, y_temp) \<and>
        train_test_split X_temp y_temp 0.5 = Inl e \<longrightarrow> split_data df = Inl e)"
    unfolding Let_def
    using split_data_sites(1) [of df e] split_data_sites(2) [of df X e]
      split_data_sites(3) [of df X y e] split_data_sites(4) [of df X y X_tr X_temp y_tr y_temp e]
    by (intro conjI) assumption+
  note gd = generate_demand_data_sites(1) [of gauss noise_level n_periods e seasonality trend]
    generate_demand_data_sites(2) [of gauss noise_level n_periods noise e seasonality trend]
  show ?thesis
    using propagates_but_initialize_session fb
      propagates_but_deploy_model [of xgb_estimator predictor instance_type]
      propagates_visualize_data [of df]
      propagates_save_data_to_s3 [of X_train y_train X_val y_val X_test y_test bucket]
      propagates_train_model [of train_s3_path val_s3_path role bucket instance_type]
      propagates_generate_prediction_with_boto3 [of endpoint test_sample]
      propagates_test_endpoint [of p test_sample actual] pf sd gd
    by (intro conjI) assumption+
qed

theorem failure_recovery_logic_witness:
  "fst (initialize_session no_role_world []) =
     Inr \<lparr>bucket_of = ''sagemaker-us-east-1-123456789012'', region_of = ''us-east-1'',
          role_of = ''arn:aws:iam::123456789012:role/typed''\<rparr> \<and>
   fst (train_model ''s3://b/train.csv'' ''s3://b/validation.csv''
          ''arn:aws:iam::123456789012:role/notebook'' ''b'' ''ml.m5.4xlarge''
          failed_training_world []) = Inl (Raised ''UnexpectedStatusException'') \<and>
   fst (test_endpoint \<lparr>endpoint_name = ''ml-models-as-tools''\<rparr> [[1, 2]] [3]
          calm_world []) = Inl IndexError"
proof -
  let ?run = "train_model ''s3://b/train.csv'' ''s3://b/validation.csv''
          ''arn:aws:iam::123456789012:role/notebook'' ''b'' ''ml.m5.4xlarge''
          failed_training_world []"
  let ?pred = "\<lparr>endpoint_name = ''ml-models-as-tools''\<rparr>"
  let ?test = "test_endpoint ?pred [[1, 2]] [3] calm_world []"
  note t1 = failure_recovery_logic [where w = no_role_world, THEN conjunct2, THEN conjunct1]
  have "outcome no_role_world SagemakerSession = None \<and>
    outcome no_role_world DefaultBucket = None \<and>
    outcome no_role_world Boto3SessionRegionName = None \<and>
    outcome no_role_world GetExecutionRole \<noteq> None \<and>
    outcome no_role_world
      (Input ''> Enter the role ARN for your SageMaker execution role: '') = None"
    by (simp add: no_role_world_def)
  with t1 have "fst (initialize_session no_role_world []) =
      Inr \<lparr>bucket_of = text_of no_role_world DefaultBucket,
           region_of = text_of no_role_world Boto3SessionRegionName,
           role_of = strip (text_of no_role_world
             (Input ''> Enter the role ARN for your SageMaker execution role: ''))\<rparr>"
    by (rule mp)
  then have a: "fst (initialize_session no_role_world []) =
     Inr \<lparr>bucket_of = ''sagemaker-us-east-1-123456789012'', region_of = ''us-east-1'',
          role_of = ''arn:aws:iam::123456789012:role/typed''\<rparr>"
    by (simp add: no_role_world_def calm_world_def strip_typed)
  from failure_recovery_logic
    [where train_s3_path = "''s3://b/train.csv''" and val_s3_path = "''s3://b/validation.csv''"
       and role = "''arn:aws:iam::123456789012:role/notebook''" and bucket = "''b''"
       and instance_type = "''ml.m5.4xlarge''", THEN conjunct2, THEN conjunct2, THEN conjunct2,
       THEN conjunct2, THEN conjunct2, THEN conjunct1]
  have "propagates (train_model ''s3://b/train.csv'' ''s3://b/validation.csv''
          ''arn:aws:iam::123456789012:role/notebook'' ''b'' ''ml.m5.4xlarge'')" .
  note pr = this [unfolded propagates_def propagates_but_def, rule_format,
      of failed_training_world "[]" "fst ?run" "snd ?run"]
  have "?run = (fst ?run, snd ?run)" by simp
  from pr [OF this] obtain new where n: "snd ?run = [] @ new"
    and p: "\<forall>ev\<in>set new. \<forall>e. ev = Raise e \<or>
         (\<exists>c. ev = Call c \<and> c \<notin> {} \<and> outcome failed_training_world c = Some e) \<longrightarrow>
         fst ?run = Inl e"
    by blast
  let ?est = "\<lparr>est_entry_point = ''training_script.py'',
      est_source_dir = ''utils'',
      est_framework_version = ''1.5-1'',
      est_hyperparameters =
        [(''max_depth'', HInt 6), (''eta'', HFloat 0.2), (''gamma'', HInt 4),
         (''min_child_weight'', HInt 6), (''subsample'', HFloat 0.8),
         (''objective'', HStr ''reg:squarederror''), (''num_round'', HInt 100),
         (''verbosity'', HInt 1)],
      est_role = ''arn:aws:iam::123456789012:role/notebook'',
      est_instance_count = 1,
      est_instance_type = ''ml.m5.4xlarge'',
      est_output_path = ''s3://b/demand-forecast/output'',
      est_keep_alive_period_in_seconds = 3600\<rparr>"
  let ?fit = "Fit ?est [(''train'', ''s3://b/train.csv''), (''validation'', ''s3://b/validation.csv'')]"
  have "snd ?run = [Call (XGBoost ?est), Call ?fit]"
    unfolding train_model_def Let_def and_then_def ext_def ret_def
    by (simp add: failed_training_world_def)
  with n have "new = [Call (XGBoost ?est), Call ?fit]" by simp
  then have f: "Call ?fit \<in> set new" by (simp only: list.set_intros)
  have "outcome failed_training_world ?fit = Some (Raised ''UnexpectedStatusException'')"
    by (simp add: failed_training_world_def)
  with p f have b: "fst ?run = Inl (Raised ''UnexpectedStatusException'')" by blast
  from failure_recovery_logic
    [where p = ?pred and test_sample = "[[1, 2]]" and actual = "[3]", THEN conjunct2,
       THEN conjunct2, THEN conjunct2, THEN conjunct2, THEN conjunct2, THEN conjunct2,
       THEN conjunct2, THEN conjunct1]
  have "propagates (test_endpoint ?pred [[1, 2]] [3])" .
  note pt = this [unfolded propagates_def propagates_but_def, rule_format,
      of calm_world "[]" "fst ?test" "snd ?test"]
  have "?test = (fst ?test, snd ?test)" by simp
  from pt [OF this] obtain new' where n': "snd ?test = [] @ new'"
    and p': "\<forall>ev\<in>set new'. \<forall>e. ev = Raise e \<or>
         (\<exists>c. ev = Call c \<and> c \<notin> {} \<and> outcome calm_world c = Some e) \<longrightarrow>
         fst ?test = Inl e"
    by blast
  have "snd ?test = [Call (Predict ?pred [[1, 2]]), Raise IndexError]"
    unfolding test_endpoint_def and_then_def ext_numbers_def lift_def
    by (simp add: calm_world_def)
  with n' have "new' = [Call (Predict ?pred [[1, 2]]), Raise IndexError]" by simp
  then have "Raise IndexError \<in> set new'" by simp
  with p' have c: "fst ?test = Inl IndexError" by blast
  from a b c show ?thesis by simp
qed

end
